theory Spec2Isabelle
  imports Main "HOL-Library.Word" "HOL-Library.Multiset"
begin

unbundle bit_operations_syntax

section \<open>Qt value types used by kqoauthrequest.cpp\<close>

text \<open>
  A \<open>QString\<close> is a sequence of UTF-16 code units, a \<open>QByteArray\<close> a sequence of
  bytes. The Qt operations the request code calls are written out below as far as the
  code observes them; the cryptographic helpers and the clock are parameters
  (record \<open>World\<close>).
\<close>

type_synonym QChar = "16 word"
type_synonym QString = "QChar list"
type_synonym QByteArray = "8 word list"
type_synonym Parameter = "QString \<times> QString"
type_synonym Warning = string

text \<open>A C string literal read as a \<open>QString\<close> and as a \<open>QByteArray\<close>.\<close>

definition QLatin1String :: "string \<Rightarrow> QString" where
  "QLatin1String s = map of_char s"

definition QByteArray_lit :: "string \<Rightarrow> QByteArray" where
  "QByteArray_lit s = map of_char s"

text \<open>\<open>QString(const QByteArray &)\<close>: every byte becomes one code unit.\<close>

definition QString_fromAscii :: "QByteArray \<Rightarrow> QString" where
  "QString_fromAscii ba = map ucast ba"

text \<open>\<open>QString::toAscii\<close>: a code unit above 0xFF has no Latin-1 form and becomes \<open>?\<close>.\<close>

definition toAscii :: "QString \<Rightarrow> QByteArray" where
  "toAscii s = map (\<lambda>c. if c \<le> 0xFF then ucast c else 0x3F) s"

text \<open>
  \<open>QString::operator<\<close>: the code units are compared position by position; at the
  first difference the smaller unit decides, and a proper prefix is smaller.
\<close>

fun QString_less :: "QString \<Rightarrow> QString \<Rightarrow> bool" where
  "QString_less [] [] = False"
| "QString_less [] (y # ys) = True"
| "QString_less (x # xs) [] = False"
| "QString_less (x # xs) (y # ys) = (if x = y then QString_less xs ys else x < y)"

text \<open>
  \<open>QString::toUtf8\<close>: a code unit below 0x80 is one byte, below 0x800 two bytes; a
  high surrogate followed by a low surrogate is one code point of four bytes; every
  other code unit is three bytes.
\<close>

definition isHighSurrogate :: "QChar \<Rightarrow> bool" where
  "isHighSurrogate c = (0xD800 \<le> c \<and> c \<le> 0xDBFF)"

definition isLowSurrogate :: "QChar \<Rightarrow> bool" where
  "isLowSurrogate c = (0xDC00 \<le> c \<and> c \<le> 0xDFFF)"

definition surrogateToUcs4 :: "QChar \<Rightarrow> QChar \<Rightarrow> 32 word" where
  "surrogateToUcs4 high low = push_bit 10 (ucast high) + ucast low - 0x35FDC00"

definition utf8_tail :: "32 word \<Rightarrow> nat \<Rightarrow> 8 word" where
  "utf8_tail u n = 0x80 OR (ucast (drop_bit n u) AND 0x3F)"

fun toUtf8 :: "QString \<Rightarrow> QByteArray" where
  "toUtf8 [] = []"
| "toUtf8 [c] =
     (if c < 0x80 then [ucast c]
      else if c < 0x800 then [(0xC0 OR ucast (drop_bit 6 c)), utf8_tail (ucast c) 0]
      else [(0xE0 OR ucast (drop_bit 12 c)), utf8_tail (ucast c) 6, utf8_tail (ucast c) 0])"
| "toUtf8 (c # low # cs) =
     (if c < 0x80 then ucast c # toUtf8 (low # cs)
      else if c < 0x800 then
        (0xC0 OR ucast (drop_bit 6 c)) # utf8_tail (ucast c) 0 # toUtf8 (low # cs)
      else if isHighSurrogate c \<and> isLowSurrogate low then
        (let u = surrogateToUcs4 c low in
           (0xF0 OR ucast (drop_bit 18 u)) # utf8_tail u 12 # utf8_tail u 6 # utf8_tail u 0
             # toUtf8 cs)
      else
        (0xE0 OR ucast (drop_bit 12 c)) # utf8_tail (ucast c) 6 # utf8_tail (ucast c) 0
          # toUtf8 (low # cs))"

text \<open>\<open>QString::number(uint)\<close>: the decimal digits, most significant first.\<close>

function number_digits :: "nat \<Rightarrow> QString \<Rightarrow> QString" where
  "number_digits n acc =
     (let acc' = (0x30 + of_nat (n mod 10)) # acc in
        if n div 10 = 0 then acc' else number_digits (n div 10) acc')"
  by pat_completeness auto
termination
  by (relation "measure (\<lambda>(n, acc). n)") auto

declare number_digits.simps [simp del]

definition QString_number :: "32 word \<Rightarrow> QString" where
  "QString_number n = number_digits (unat n) []"

text \<open>\<open>QByteArray::toHex\<close>: two lower-case hexadecimal digits for every byte.\<close>

definition toHexLower :: "8 word \<Rightarrow> 8 word" where
  "toHexLower n = (if n < 10 then 0x30 + n else 0x61 + (n - 10))"

definition toHex :: "QByteArray \<Rightarrow> QByteArray" where
  "toHex ba = concat (map (\<lambda>b. [toHexLower (drop_bit 4 b), toHexLower (b AND 0xF)]) ba)"

subsection \<open>Percent-encoding\<close>

text \<open>
  \<open>QUrl::toPercentEncoding(input)\<close> with no exclude and include sets: the input is
  converted to UTF-8 and every byte is either copied or written as \<open>%\<close> and two
  hexadecimal digits. The copied bytes are the ranges \<open>a-z\<close>, \<open>A-Z\<close>, \<open>0-9\<close> and the
  four bytes \<open>-\<close>, \<open>.\<close>, \<open>_\<close> and \<open>~\<close>.
\<close>

definition toHexHelper :: "8 word \<Rightarrow> 8 word" where
  "toHexHelper c = map of_char ''0123456789ABCDEF'' ! unat (c AND 0xF)"

definition percent_copied :: "8 word \<Rightarrow> bool" where
  "percent_copied c =
     ((0x61 \<le> c \<and> c \<le> 0x7A) \<or> (0x41 \<le> c \<and> c \<le> 0x5A) \<or> (0x30 \<le> c \<and> c \<le> 0x39)
      \<or> c = 0x2D \<or> c = 0x2E \<or> c = 0x5F \<or> c = 0x7E)"

definition percent_byte :: "8 word \<Rightarrow> QByteArray" where
  "percent_byte c =
     (if percent_copied c then [c]
      else [0x25, toHexHelper (drop_bit 4 (c AND 0xF0)), toHexHelper (c AND 0xF)])"

fun QByteArray_toPercentEncoding :: "QByteArray \<Rightarrow> QByteArray" where
  "QByteArray_toPercentEncoding [] = []"
| "QByteArray_toPercentEncoding (c # cs) = percent_byte c @ QByteArray_toPercentEncoding cs"

definition toPercentEncoding :: "QString \<Rightarrow> QByteArray" where
  "toPercentEncoding input = QByteArray_toPercentEncoding (toUtf8 input)"

subsection \<open>URLs\<close>

text \<open>
  A \<open>QUrl\<close> as the request code observes it: whether Qt's parser accepted it, the text
  \<open>toString\<close> prints before the query (scheme, authority and path), the query and the
  fragment. \<open>toString(QUrl::RemoveQuery)\<close> leaves the query and its \<open>?\<close> out. An empty
  URL, such as the default-constructed \<open>QUrl()\<close>, is not valid.
\<close>

record QUrl =
  url_wellformed :: bool
  url_prefix :: QString
  url_query :: "QString option"
  url_fragment :: "QString option"

datatype FormattingOption = QUrl_None | RemoveQuery

definition QUrl_isEmpty :: "QUrl \<Rightarrow> bool" where
  "QUrl_isEmpty u = (url_prefix u = [] \<and> url_query u = None \<and> url_fragment u = None)"

definition QUrl_isValid :: "QUrl \<Rightarrow> bool" where
  "QUrl_isValid u = (url_wellformed u \<and> \<not> QUrl_isEmpty u)"

definition QUrl_toString :: "QUrl \<Rightarrow> FormattingOption \<Rightarrow> QString" where
  "QUrl_toString u opt =
     url_prefix u
     @ (case url_query u of
          None \<Rightarrow> []
        | Some qs \<Rightarrow> (if opt = RemoveQuery then [] else 0x3F # qs))
     @ (case url_fragment u of None \<Rightarrow> [] | Some f \<Rightarrow> 0x23 # f)"

definition QUrl_default :: QUrl where
  "QUrl_default =
     \<lparr>url_wellformed = True, url_prefix = [], url_query = None, url_fragment = None\<rparr>"

subsection \<open>Sorting\<close>

text \<open>
  \<open>qSort(begin, end, lessThan)\<close> orders the range by the comparator. It is written here
  as an insertion sort; lemma \<open>qSort_unique\<close> below shows that for the comparator of this
  file every ordered rearrangement of the list is this one, so the choice of algorithm
  does not show in the result.
\<close>

fun qSort_insert :: "('a \<Rightarrow> 'a \<Rightarrow> bool) \<Rightarrow> 'a \<Rightarrow> 'a list \<Rightarrow> 'a list" where
  "qSort_insert lt x [] = [x]"
| "qSort_insert lt x (y # ys) =
     (if lt x y then x # y # ys else y # qSort_insert lt x ys)"

fun qSort :: "('a \<Rightarrow> 'a \<Rightarrow> bool) \<Rightarrow> 'a list \<Rightarrow> 'a list" where
  "qSort lt [] = []"
| "qSort lt (x # xs) = qSort_insert lt x (qSort lt xs)"

subsection \<open>The clock and the cryptographic helpers\<close>

text \<open>
  What the request code takes from outside: the current time in seconds
  (\<open>QDateTime::currentDateTime().toTime_t()\<close>), the MD5 digest of
  \<open>QCryptographicHash\<close>, and \<open>KQOAuthUtils::hmac_sta1\<close> of kqoauthutils.cpp.
\<close>

record World =
  currentDateTime_toTime_t :: "32 word"
  QCryptographicHash_Md5 :: "QByteArray \<Rightarrow> QByteArray"
  hmac_sta1 :: "QByteArray \<Rightarrow> QString \<Rightarrow> QString"

section \<open>The request object\<close>

text \<open>
  Modelled from the spec: the parameter names of kqoauthglobals.h, which is not among
  the sources; the spec names each parameter the code appends.
\<close>

definition OAUTH_KEY_CALLBACK :: QString where
  "OAUTH_KEY_CALLBACK = QLatin1String ''oauth_callback''"

definition OAUTH_KEY_SIGNATURE_METHOD :: QString where
  "OAUTH_KEY_SIGNATURE_METHOD = QLatin1String ''oauth_signature_method''"

definition OAUTH_KEY_CONSUMER_KEY :: QString where
  "OAUTH_KEY_CONSUMER_KEY = QLatin1String ''oauth_consumer_key''"

definition OAUTH_KEY_VERSION :: QString where
  "OAUTH_KEY_VERSION = QLatin1String ''oauth_version''"

definition OAUTH_KEY_TIMESTAMP :: QString where
  "OAUTH_KEY_TIMESTAMP = QLatin1String ''oauth_timestamp''"

definition OAUTH_KEY_NONCE :: QString where
  "OAUTH_KEY_NONCE = QLatin1String ''oauth_nonce''"

definition OAUTH_KEY_SIGNATURE :: QString where
  "OAUTH_KEY_SIGNATURE = QLatin1String ''oauth_signature''"

text \<open>
  Modelled from the spec: the enumerations of kqoauthrequest.h, which is not among the
  sources, numbered from 0 in the order the spec lists their values. The request type
  is kept as the integer the C++ comparisons of \<open>initRequest\<close> see.
\<close>

definition TemporaryCredentials :: int where "TemporaryCredentials = 0"
definition ResourceOwnerAuth :: int where "ResourceOwnerAuth = 1"
definition AccessToken :: int where "AccessToken = 2"

definition HMAC_SHA1 :: int where "HMAC_SHA1 = 0"
definition PLAINTEXT :: int where "PLAINTEXT = 1"
definition RSA_SHA1 :: int where "RSA_SHA1 = 2"

definition GET :: int where "GET = 0"
definition POST :: int where "POST = 1"

text \<open>
  Modelled from the spec: \<open>KQOAuthAdditionalParameters\<close> of kqoauthglobals.h, a mapping
  from strings to strings with unique keys, iterated in key order. It is kept as the
  list of its entries in ascending key order (\<open>QMap_ok\<close>); \<open>keys()\<close> and \<open>values()\<close> read
  that list, and \<open>QMap_insert\<close> adds or replaces an entry.
\<close>

type_synonym KQOAuthAdditionalParameters = "Parameter list"

fun QMap_ok :: "KQOAuthAdditionalParameters \<Rightarrow> bool" where
  "QMap_ok [] = True"
| "QMap_ok [p] = True"
| "QMap_ok (p # r # m) = (QString_less (fst p) (fst r) \<and> QMap_ok (r # m))"

definition QMap_keys :: "KQOAuthAdditionalParameters \<Rightarrow> QString list" where
  "QMap_keys m = map fst m"

definition QMap_values :: "KQOAuthAdditionalParameters \<Rightarrow> QString list" where
  "QMap_values m = map snd m"

fun QMap_insert :: "QString \<Rightarrow> QString \<Rightarrow> KQOAuthAdditionalParameters
    \<Rightarrow> KQOAuthAdditionalParameters" where
  "QMap_insert k v [] = [(k, v)]"
| "QMap_insert k v (p # m) =
     (if QString_less k (fst p) then (k, v) # p # m
      else if k = fst p then (k, v) # m
      else p # QMap_insert k v m)"

text \<open>
  The fields of \<open>KQOAuthRequestPrivate\<close>, and the public object that owns it. The private
  object reads the request type through its back pointer \<open>q_ptr\<close>, so its methods take
  the whole request.
\<close>

record KQOAuthRequestPrivate =
  oauthRequestEndpoint :: QUrl
  oauthCallbackUrl :: QUrl
  oauthConsumerKey :: QString
  oauthConsumerSecretKey :: QString
  oauthTokenSecret :: QString
  oauthSignatureMethod :: QString
  oauthHttpMethod :: QString
  oauthVersion :: QString
  oauthTimestamp_field :: QString
  oauthNonce_field :: QString
  additionalParams :: KQOAuthAdditionalParameters
  requestParameters :: "Parameter list"

record KQOAuthRequest =
  requestType :: int
  d_ptr :: KQOAuthRequestPrivate

section \<open>The private implementation\<close>

text \<open>
  \<open>insertAdditionalParams\<close>: the loop over the index \<open>i\<close> appends the pair of the
  \<open>i\<close>-th key and the \<open>i\<close>-th value.
\<close>

function insertAdditionalParams_loop ::
    "QString list \<Rightarrow> QString list \<Rightarrow> nat \<Rightarrow> Parameter list \<Rightarrow> Parameter list" where
  "insertAdditionalParams_loop additionalKeys additionalValues i requestParams =
     (if i < length additionalKeys then
        insertAdditionalParams_loop additionalKeys additionalValues (Suc i)
          (requestParams @ [(additionalKeys ! i, additionalValues ! i)])
      else requestParams)"
  by pat_completeness auto
termination
  by (relation "measure (\<lambda>(ks, vs, i, ps). length ks - i)") auto

declare insertAdditionalParams_loop.simps [simp del]

definition insertAdditionalParams ::
    "KQOAuthRequestPrivate \<Rightarrow> Parameter list \<Rightarrow> Parameter list" where
  "insertAdditionalParams d requestParams =
     (let additionalKeys = QMap_keys (additionalParams d);
          additionalValues = QMap_values (additionalParams d)
      in insertAdditionalParams_loop additionalKeys additionalValues 0 requestParams)"

text \<open>
  \<open>oauthTimestamp\<close> and \<open>oauthNonce\<close>: the stored value when there is one, otherwise the
  clock, and the MD5 digest of the timestamp in hexadecimal.
\<close>

definition oauthTimestamp :: "World \<Rightarrow> KQOAuthRequestPrivate \<Rightarrow> QString" where
  "oauthTimestamp w d =
     (if oauthTimestamp_field d \<noteq> [] then oauthTimestamp_field d
      else QString_number (currentDateTime_toTime_t w))"

definition oauthNonce :: "World \<Rightarrow> KQOAuthRequestPrivate \<Rightarrow> QString" where
  "oauthNonce w d =
     (if oauthNonce_field d \<noteq> [] then oauthNonce_field d
      else
        (let nonceTimestamp = oauthTimestamp_field d;
             nonceTimestamp = (if nonceTimestamp = [] then oauthTimestamp w d else nonceTimestamp)
         in QString_fromAscii (toHex (QCryptographicHash_Md5 w (toAscii nonceTimestamp)))))"

text \<open>
  \<open>prepareRequest\<close>: for a temporary-credentials request six appends and the additional
  parameters; nothing for the other request types. It returns true in every case.
\<close>

definition prepareRequest :: "World \<Rightarrow> KQOAuthRequest \<Rightarrow> bool \<times> KQOAuthRequest" where
  "prepareRequest w q =
     (if requestType q = TemporaryCredentials then
        (let d = d_ptr q;
             ps = requestParameters d;
             ps = ps @ [(OAUTH_KEY_CALLBACK,
                         QString_fromAscii
                           (toPercentEncoding (QUrl_toString (oauthCallbackUrl d) QUrl_None)))];
             ps = ps @ [(OAUTH_KEY_SIGNATURE_METHOD, oauthSignatureMethod d)];
             ps = ps @ [(OAUTH_KEY_CONSUMER_KEY, oauthConsumerKey d)];
             ps = ps @ [(OAUTH_KEY_VERSION, oauthVersion d)];
             ps = ps @ [(OAUTH_KEY_TIMESTAMP, oauthTimestamp w d)];
             ps = ps @ [(OAUTH_KEY_NONCE, oauthNonce w d)];
             ps = insertAdditionalParams d ps
         in (True, q\<lparr>d_ptr := d\<lparr>requestParameters := ps\<rparr>\<rparr>))
      else (True, q))"

text \<open>\<open>normalizedParameterSort\<close>, the comparator handed to \<open>qSort\<close>.\<close>

definition normalizedParameterSort :: "Parameter \<Rightarrow> Parameter \<Rightarrow> bool" where
  "normalizedParameterSort left right =
     (let keyLeft = fst left; valueLeft = snd left;
          keyRight = fst right; valueRight = snd right
      in if keyLeft = keyRight then QString_less valueLeft valueRight
         else QString_less keyLeft keyRight)"

text \<open>
  \<open>encodedParamaterList\<close>: the loop over the parameters with its \<open>first\<close> flag and the
  byte array it grows.
\<close>

fun encodedParamaterList_loop :: "bool \<Rightarrow> QByteArray \<Rightarrow> Parameter list \<Rightarrow> QByteArray" where
  "encodedParamaterList_loop first resultList [] = resultList"
| "encodedParamaterList_loop first resultList (parameter # parameters) =
     (let resultList = (if \<not> first then resultList @ QByteArray_lit ''%26'' else resultList);
          first = False;
          resultList = resultList @
            (toPercentEncoding (fst parameter) @ QByteArray_lit ''%3D''
               @ toPercentEncoding (snd parameter))
      in encodedParamaterList_loop first resultList parameters)"

definition encodedParamaterList :: "Parameter list \<Rightarrow> QByteArray" where
  "encodedParamaterList parameters = encodedParamaterList_loop True [] parameters"

text \<open>
  \<open>requestBaseString\<close> runs \<open>prepareRequest\<close>, sorts the stored list in place for a
  temporary-credentials request, and returns the base string with the changed object.
\<close>

definition requestBaseString :: "World \<Rightarrow> KQOAuthRequest \<Rightarrow> QByteArray \<times> KQOAuthRequest" where
  "requestBaseString w q0 =
     (let q = snd (prepareRequest w q0);
          d = d_ptr q;
          baseString = [];
          baseString = baseString @ (toUtf8 (oauthHttpMethod d) @ QByteArray_lit ''&'');
          baseString = baseString @
            (toPercentEncoding (QUrl_toString (oauthRequestEndpoint d) RemoveQuery)
               @ QByteArray_lit ''&'');
          d = (if requestType q = TemporaryCredentials then
                 d\<lparr>requestParameters := qSort normalizedParameterSort (requestParameters d)\<rparr>
               else d);
          baseString = baseString @ encodedParamaterList (requestParameters d)
      in (baseString, q\<lparr>d_ptr := d\<rparr>))"

text \<open>
  \<open>oauthSignature\<close> and \<open>signRequest\<close>. The signature is computed first, which changes
  the stored list; the signature pair is appended to the changed list.
\<close>

definition oauthSignature :: "World \<Rightarrow> KQOAuthRequest \<Rightarrow> QString \<times> KQOAuthRequest" where
  "oauthSignature w q0 =
     (let (baseString, q) = requestBaseString w q0;
          d = d_ptr q
      in (hmac_sta1 w baseString
            (oauthConsumerSecretKey d @ QLatin1String ''&'' @ oauthTokenSecret d), q))"

definition signRequest :: "World \<Rightarrow> KQOAuthRequest \<Rightarrow> KQOAuthRequest" where
  "signRequest w q0 =
     (let (signature, q) = oauthSignature w q0;
          d = d_ptr q
      in q\<lparr>d_ptr := d\<lparr>requestParameters :=
            requestParameters d @ [(OAUTH_KEY_SIGNATURE, signature)]\<rparr>\<rparr>)"

text \<open>\<open>validateRequest\<close>, with the cases of its switch.\<close>

definition validateRequest :: "KQOAuthRequest \<Rightarrow> bool" where
  "validateRequest q =
     (let d = d_ptr q in
      if requestType q = TemporaryCredentials then
        (if QUrl_isEmpty (oauthRequestEndpoint d) \<or>
            QUrl_isEmpty (oauthCallbackUrl d) \<or>
            oauthConsumerKey d = [] \<or>
            oauthNonce_field d = [] \<or>
            oauthSignatureMethod d = [] \<or>
            oauthTimestamp_field d = [] \<or>
            oauthVersion d = []
         then False
         else True)
      else if requestType q = ResourceOwnerAuth then False
      else if requestType q = AccessToken then False
      else False)"

section \<open>The public interface\<close>

text \<open>
  Every public method returns the warnings it logs with \<open>qWarning\<close> next to the changed
  object. None of them has a failing branch.
\<close>

definition setSignatureMethod :: "int \<Rightarrow> KQOAuthRequest \<Rightarrow> Warning list \<times> KQOAuthRequest" where
  "setSignatureMethod requestMethod q =
     (let (warnings, requestMethodString) =
            (if requestMethod = PLAINTEXT then ([], QLatin1String ''PLAINTEXT'')
             else if requestMethod = HMAC_SHA1 then ([], QLatin1String ''HMAC_SHA1'')
             else if requestMethod = RSA_SHA1 then ([], QLatin1String ''RSA_SHA1'')
             else ([''Invalid signature method set.''], []))
      in (warnings, q\<lparr>d_ptr := (d_ptr q)\<lparr>oauthSignatureMethod := requestMethodString\<rparr>\<rparr>))"

text \<open>The \<open>POST\<close> case has no \<open>break\<close> and runs into the default case's warning.\<close>

definition setHttpMethod :: "int \<Rightarrow> KQOAuthRequest \<Rightarrow> Warning list \<times> KQOAuthRequest" where
  "setHttpMethod httpMethod q =
     (let (warnings, requestHttpMethodString) =
            (if httpMethod = GET then ([], QLatin1String ''GET'')
             else if httpMethod = POST then ([''Invalid HTTP method set.''], QLatin1String ''POST'')
             else ([''Invalid HTTP method set.''], []))
      in (warnings, q\<lparr>d_ptr := (d_ptr q)\<lparr>oauthHttpMethod := requestHttpMethodString\<rparr>\<rparr>))"

definition setConsumerKey :: "QString \<Rightarrow> KQOAuthRequest \<Rightarrow> KQOAuthRequest" where
  "setConsumerKey consumerKey q = q\<lparr>d_ptr := (d_ptr q)\<lparr>oauthConsumerKey := consumerKey\<rparr>\<rparr>"

definition setConsumerSecretKey :: "QString \<Rightarrow> KQOAuthRequest \<Rightarrow> KQOAuthRequest" where
  "setConsumerSecretKey consumerSecretKey q =
     q\<lparr>d_ptr := (d_ptr q)\<lparr>oauthConsumerSecretKey := consumerSecretKey\<rparr>\<rparr>"

definition setCallbackUrl :: "QUrl \<Rightarrow> KQOAuthRequest \<Rightarrow> KQOAuthRequest" where
  "setCallbackUrl callbackUrl q = q\<lparr>d_ptr := (d_ptr q)\<lparr>oauthCallbackUrl := callbackUrl\<rparr>\<rparr>"

definition setAdditionalParameters ::
    "KQOAuthAdditionalParameters \<Rightarrow> KQOAuthRequest \<Rightarrow> KQOAuthRequest" where
  "setAdditionalParameters additionalParams' q =
     q\<lparr>d_ptr := (d_ptr q)\<lparr>additionalParams := additionalParams'\<rparr>\<rparr>"

text \<open>
  The constructor leaves \<open>requestType\<close> uninitialised: whatever value the member holds
  is the argument \<open>rtype0\<close>. All strings and URLs start empty, then the defaults are set.
\<close>

definition KQOAuthRequestPrivate_new :: KQOAuthRequestPrivate where
  "KQOAuthRequestPrivate_new =
     \<lparr>oauthRequestEndpoint = QUrl_default, oauthCallbackUrl = QUrl_default,
      oauthConsumerKey = [], oauthConsumerSecretKey = [], oauthTokenSecret = [],
      oauthSignatureMethod = [], oauthHttpMethod = [], oauthVersion = [],
      oauthTimestamp_field = [], oauthNonce_field = [],
      additionalParams = [], requestParameters = []\<rparr>"

definition KQOAuthRequest_new :: "int \<Rightarrow> Warning list \<times> KQOAuthRequest" where
  "KQOAuthRequest_new rtype0 =
     (let q = \<lparr>requestType = rtype0, d_ptr = KQOAuthRequestPrivate_new\<rparr>;
          (warnings1, q) = setSignatureMethod HMAC_SHA1 q;
          (warnings2, q) = setHttpMethod POST q;
          q = q\<lparr>d_ptr := (d_ptr q)\<lparr>oauthVersion := QLatin1String ''1.0''\<rparr>\<rparr>
      in (warnings1 @ warnings2, q))"

definition initRequest ::
    "World \<Rightarrow> int \<Rightarrow> QUrl \<Rightarrow> KQOAuthRequest \<Rightarrow> Warning list \<times> KQOAuthRequest" where
  "initRequest w rtype requestEndpoint q0 =
     (if \<not> QUrl_isValid requestEndpoint then
        ([''Endpoint URL is not valid. Ignoring. This request might not work.''], q0)
      else
        (let warnings =
               (if rtype < 0 \<or> rtype \<ge> AccessToken then
                  [''Invalid request type. Ignoring. This request might not work.'']
                else []);
             q = q0\<lparr>requestType := rtype\<rparr>;
             q = q\<lparr>d_ptr := (d_ptr q)\<lparr>oauthRequestEndpoint := requestEndpoint\<rparr>\<rparr>;
             q = q\<lparr>d_ptr := (d_ptr q)\<lparr>oauthTimestamp_field := oauthTimestamp w (d_ptr q)\<rparr>\<rparr>;
             q = q\<lparr>d_ptr := (d_ptr q)\<lparr>oauthNonce_field := oauthNonce w (d_ptr q)\<rparr>\<rparr>
         in (warnings, q)))"

text \<open>
  \<open>requestParameters()\<close>: the warning is logged when \<open>validateRequest\<close> returns true;
  the request is signed in either case, and every stored pair is printed as
  \<open>key=value\<close> in UTF-8.
\<close>

fun requestParameters_loop :: "QByteArray list \<Rightarrow> Parameter list \<Rightarrow> QByteArray list" where
  "requestParameters_loop requestParamList [] = requestParamList"
| "requestParameters_loop requestParamList (requestParam # rest) =
     (let param = fst requestParam;
          value = snd requestParam
      in requestParameters_loop
           (requestParamList @ [toUtf8 (param @ QLatin1String ''='' @ value)]) rest)"

definition KQOAuthRequest_requestParameters ::
    "World \<Rightarrow> KQOAuthRequest \<Rightarrow> Warning list \<times> QByteArray list \<times> KQOAuthRequest" where
  "KQOAuthRequest_requestParameters w q0 =
     (let warnings =
            (if validateRequest q0 then
               [''Request is not valid! I will still sign it, but it will probably not work.'']
             else []);
          q = signRequest w q0;
          requestParamList = requestParameters_loop [] (requestParameters (d_ptr q))
      in (warnings, requestParamList, q))"

section \<open>The specification's wording\<close>

text \<open>
  The definitions of this section follow the words of the specification, not the code:
  the unreserved characters listed one by one, a byte written as \<open>%\<close> and its two
  upper-case hexadecimal digits, pairs joined by \<open>%3D\<close> and \<open>%26\<close>, and a list in the
  order of the comparator. The theorems below compare the code with them.
\<close>

definition spec_unreserved :: "8 word set" where
  "spec_unreserved =
     set (QByteArray_lit ''ABCDEFGHIJKLMNOPQRSTUVWXYZabcdefghijklmnopqrstuvwxyz0123456789-._~'')"

definition spec_hex_digit :: "nat \<Rightarrow> 8 word" where
  "spec_hex_digit n = QByteArray_lit ''0123456789ABCDEF'' ! n"

definition spec_percent_byte :: "8 word \<Rightarrow> QByteArray" where
  "spec_percent_byte b =
     (if b \<in> spec_unreserved then [b]
      else QByteArray_lit ''%'' @ [spec_hex_digit (unat b div 16), spec_hex_digit (unat b mod 16)])"

definition spec_percent_encode :: "QString \<Rightarrow> QByteArray" where
  "spec_percent_encode s = concat (map spec_percent_byte (toUtf8 s))"

definition spec_encoded_pair :: "Parameter \<Rightarrow> QByteArray" where
  "spec_encoded_pair p =
     spec_percent_encode (fst p) @ QByteArray_lit ''%3D'' @ spec_percent_encode (snd p)"

fun spec_encodedParameterList :: "Parameter list \<Rightarrow> QByteArray" where
  "spec_encodedParameterList [] = []"
| "spec_encodedParameterList [p] = spec_encoded_pair p"
| "spec_encodedParameterList (p # r # ps) =
     spec_encoded_pair p @ QByteArray_lit ''%26'' @ spec_encodedParameterList (r # ps)"

text \<open>A list in the order of the comparator: no pair is followed by a smaller one.\<close>

abbreviation nps_sorted :: "Parameter list \<Rightarrow> bool" where
  "nps_sorted \<equiv> sorted_wrt (\<lambda>a b. \<not> normalizedParameterSort b a)"

text \<open>
  The state \<open>initRequest\<close> establishes when it runs to its end: the request type, the
  endpoint, the timestamp and the nonce are stored.
\<close>

definition spec_initRequest_state ::
    "World \<Rightarrow> int \<Rightarrow> QUrl \<Rightarrow> KQOAuthRequest \<Rightarrow> KQOAuthRequest" where
  "spec_initRequest_state w rtype requestEndpoint q =
     (let d = (d_ptr q)\<lparr>oauthRequestEndpoint := requestEndpoint\<rparr>;
          d = d\<lparr>oauthTimestamp_field := oauthTimestamp w d\<rparr>;
          d = d\<lparr>oauthNonce_field := oauthNonce w d\<rparr>
      in \<lparr>requestType = rtype, d_ptr = d\<rparr>)"

text \<open>
  The parameters of a temporary-credentials request in the order the specification
  lists them, followed by the additional parameters in key order.
\<close>

definition spec_preparedParameters :: "World \<Rightarrow> KQOAuthRequestPrivate \<Rightarrow> Parameter list" where
  "spec_preparedParameters w d =
     [(QLatin1String ''oauth_callback'',
       QString_fromAscii (spec_percent_encode (QUrl_toString (oauthCallbackUrl d) QUrl_None))),
      (QLatin1String ''oauth_signature_method'', oauthSignatureMethod d),
      (QLatin1String ''oauth_consumer_key'', oauthConsumerKey d),
      (QLatin1String ''oauth_version'', oauthVersion d),
      (QLatin1String ''oauth_timestamp'', oauthTimestamp w d),
      (QLatin1String ''oauth_nonce'', oauthNonce w d)]
     @ additionalParams d"

text \<open>The names of the six protocol parameters of that list.\<close>

definition spec_protocolKeys :: "QString list" where
  "spec_protocolKeys =
     map QLatin1String [''oauth_callback'', ''oauth_signature_method'', ''oauth_consumer_key'',
       ''oauth_version'', ''oauth_timestamp'', ''oauth_nonce'']"

text \<open>
  The stored list at the moment the base string is computed from it: for a
  temporary-credentials request the old list and the prepared parameters, sorted; for
  any other request type the old list as it is.
\<close>

definition spec_parametersAtSigning :: "World \<Rightarrow> KQOAuthRequest \<Rightarrow> Parameter list" where
  "spec_parametersAtSigning w q =
     (if requestType q = TemporaryCredentials then
        qSort normalizedParameterSort
          (requestParameters (d_ptr q) @ spec_preparedParameters w (d_ptr q))
      else requestParameters (d_ptr q))"

text \<open>
  The base string: method, \<open>&\<close>, encoded endpoint without its query, \<open>&\<close>, encoded
  parameter list.
\<close>

definition spec_baseString :: "World \<Rightarrow> KQOAuthRequest \<Rightarrow> QByteArray" where
  "spec_baseString w q =
     toUtf8 (oauthHttpMethod (d_ptr q)) @ QByteArray_lit ''&''
     @ spec_percent_encode (QUrl_toString (oauthRequestEndpoint (d_ptr q)) RemoveQuery)
     @ QByteArray_lit ''&''
     @ spec_encodedParameterList (spec_parametersAtSigning w q)"

text \<open>The signature: the keyed digest of the base string under \<open>secret & tokenSecret\<close>.\<close>

definition spec_signature :: "World \<Rightarrow> KQOAuthRequest \<Rightarrow> QString" where
  "spec_signature w q =
     hmac_sta1 w (spec_baseString w q)
       (oauthConsumerSecretKey (d_ptr q) @ QLatin1String ''&'' @ oauthTokenSecret (d_ptr q))"

text \<open>A stored pair printed as \<open>key=value\<close>, as \<open>requestParameters()\<close> returns it.\<close>

definition spec_key_value :: "Parameter \<Rightarrow> QByteArray" where
  "spec_key_value p = toUtf8 (fst p @ QLatin1String ''='' @ snd p)"

section \<open>A concrete request\<close>

text \<open>
  The theorems below hold for every clock value and every digest function. To run the
  code on an input, \<open>example_world\<close> fixes the clock at 1300000000 and puts two simple
  functions in the place of the digests: the first two bytes of the message for MD5, and
  the key followed by the length of the message for \<open>hmac_sta1\<close>. \<open>example_request\<close> is
  a temporary-credentials request made with the constructor, \<open>initRequest\<close> and the
  setters.
\<close>

definition example_world :: World where
  "example_world =
     \<lparr>currentDateTime_toTime_t = 1300000000,
      QCryptographicHash_Md5 = (\<lambda>ba. take 2 (ba @ [0xAB, 0xCD])),
      hmac_sta1 = (\<lambda>m k. k @ QString_number (of_nat (length m)))\<rparr>"

definition example_endpoint :: QUrl where
  "example_endpoint =
     \<lparr>url_wellformed = True, url_prefix = QLatin1String ''http://a.b/t'',
      url_query = Some (QLatin1String ''x=1''), url_fragment = None\<rparr>"

definition example_callback :: QUrl where
  "example_callback =
     \<lparr>url_wellformed = True, url_prefix = QLatin1String ''http://c/d'',
      url_query = None, url_fragment = None\<rparr>"

definition example_request :: KQOAuthRequest where
  "example_request =
     setAdditionalParameters
       (QMap_insert (QLatin1String ''b'') (QLatin1String ''2 3'')
          (QMap_insert (QLatin1String ''a'') (QLatin1String ''1'') []))
       (setConsumerSecretKey (QLatin1String ''cs'')
          (setConsumerKey (QLatin1String ''ck'')
             (setCallbackUrl example_callback
                (snd (initRequest example_world TemporaryCredentials example_endpoint
                        (snd (KQOAuthRequest_new AccessToken)))))))"

text \<open>A request that was constructed and never initialised.\<close>

definition example_unset_request :: KQOAuthRequest where
  "example_unset_request = snd (KQOAuthRequest_new TemporaryCredentials)"

text \<open>A request whose additional parameters hold a pair named \<open>oauth_signature\<close>.\<close>

definition example_signature_named_request :: KQOAuthRequest where
  "example_signature_named_request =
     setAdditionalParameters (QMap_insert OAUTH_KEY_SIGNATURE (QLatin1String ''x'') [])
       example_request"

text \<open>
  The example request after one call of \<open>requestParameters()\<close>, and that object
  initialised again as a resource-owner request.
\<close>

definition example_signed_request :: KQOAuthRequest where
  "example_signed_request =
     snd (snd (KQOAuthRequest_requestParameters example_world example_request))"

definition example_reinitialised_request :: KQOAuthRequest where
  "example_reinitialised_request =
     snd (initRequest example_world ResourceOwnerAuth example_endpoint example_signed_request)"

section \<open>Evaluation\<close>

text \<open>The defining equations that run the code on a concrete input.\<close>

lemmas qt_eval =
  QLatin1String_def QByteArray_lit_def QString_fromAscii_def toAscii_def
  QString_number_def number_digits.simps toHex_def toHexLower_def
  toPercentEncoding_def percent_byte_def percent_copied_def toHexHelper_def
  QUrl_isValid_def QUrl_isEmpty_def QUrl_toString_def QUrl_default_def
  isHighSurrogate_def isLowSurrogate_def Let_def

section \<open>The comparator and the sort\<close>

lemma QString_less_irrefl: "\<not> QString_less a a"
  by (induction a) auto

lemma QString_less_trans: "QString_less a b \<Longrightarrow> QString_less b c \<Longrightarrow> QString_less a c"
proof (induction a b arbitrary: c rule: QString_less.induct)
  case 1
  then show ?case by simp
next
  case (2 y ys)
  then show ?case by (cases c) simp_all
next
  case (3 x xs)
  then show ?case by simp
next
  case (4 x xs y ys)
  show ?case
  proof (cases c)
    case Nil
    with 4 show ?thesis by simp
  next
    case (Cons z zs)
    with 4 show ?thesis
      by (auto split: if_splits)
  qed
qed

lemma QString_less_total: "QString_less a b \<or> a = b \<or> QString_less b a"
  by (induction a b rule: QString_less.induct) auto

lemma QString_less_lexord: "QString_less a b \<longleftrightarrow> (a, b) \<in> lexord {(x, y). x < y}"
  by (induction a b rule: QString_less.induct) auto

lemma nps_irrefl: "\<not> normalizedParameterSort p p"
  by (simp add: normalizedParameterSort_def QString_less_irrefl)

lemma nps_trans:
  "normalizedParameterSort p q \<Longrightarrow> normalizedParameterSort q r \<Longrightarrow> normalizedParameterSort p r"
  by (auto simp: normalizedParameterSort_def Let_def QString_less_irrefl split: if_splits
      dest: QString_less_trans)

lemma nps_total: "normalizedParameterSort p q \<or> p = q \<or> normalizedParameterSort q p"
  using QString_less_total [of "fst p" "fst q"] QString_less_total [of "snd p" "snd q"]
  by (auto simp: normalizedParameterSort_def Let_def prod_eq_iff)

lemma nps_asym: "normalizedParameterSort p q \<Longrightarrow> \<not> normalizedParameterSort q p"
  using nps_irrefl nps_trans by blast

lemma set_qSort_insert: "set (qSort_insert lt x xs) = insert x (set xs)"
  by (induction xs) auto

lemma mset_qSort_insert: "mset (qSort_insert lt x xs) = add_mset x (mset xs)"
  by (induction xs) auto

lemma mset_qSort: "mset (qSort lt xs) = mset xs"
  by (induction xs) (auto simp: mset_qSort_insert)

lemma set_qSort: "set (qSort lt xs) = set xs"
  by (induction xs) (simp_all add: set_qSort_insert)

lemma nps_sorted_insert:
  "nps_sorted xs \<Longrightarrow> nps_sorted (qSort_insert normalizedParameterSort x xs)"
proof (induction xs)
  case Nil
  then show ?case by simp
next
  case (Cons y ys)
  from Cons.prems have tl: "nps_sorted ys" and hd: "\<forall>z\<in>set ys. \<not> normalizedParameterSort z y"
    by simp_all
  show ?case
  proof (cases "normalizedParameterSort x y")
    case True
    have "\<not> normalizedParameterSort y x"
      using True by (rule nps_asym)
    moreover have "\<not> normalizedParameterSort z x" if "z \<in> set ys" for z
    proof
      assume "normalizedParameterSort z x"
      then have "normalizedParameterSort z y" using True by (rule nps_trans)
      with hd that show False by blast
    qed
    ultimately show ?thesis
      using True Cons.prems by simp
  next
    case False
    have "nps_sorted (qSort_insert normalizedParameterSort x ys)"
      using tl by (rule Cons.IH)
    with False hd show ?thesis
      by (simp add: set_qSort_insert)
  qed
qed

lemma nps_sorted_qSort: "nps_sorted (qSort normalizedParameterSort xs)"
  by (induction xs) (simp_all add: nps_sorted_insert)

lemma nps_sorted_unique:
  "nps_sorted xs \<Longrightarrow> nps_sorted ys \<Longrightarrow> mset xs = mset ys \<Longrightarrow> xs = ys"
proof (induction xs arbitrary: ys)
  case Nil
  then show ?case by simp
next
  case (Cons x xs)
  from Cons.prems(3) obtain y ys' where ys: "ys = y # ys'"
    by (cases ys) auto
  have "set (x # xs) = set ys"
    using Cons.prems(3) by (rule mset_eq_setD)
  then have xin: "x \<in> set (y # ys')" and yin: "y \<in> set (x # xs)"
    using ys by auto
  have yx: "\<not> normalizedParameterSort y x"
  proof (cases "y = x")
    case True
    then show ?thesis by (simp add: nps_irrefl)
  next
    case False
    with yin have "y \<in> set xs" by simp
    with Cons.prems(1) show ?thesis by simp
  qed
  have xy: "\<not> normalizedParameterSort x y"
  proof (cases "x = y")
    case True
    then show ?thesis by (simp add: nps_irrefl)
  next
    case False
    with xin have "x \<in> set ys'" by simp
    with Cons.prems(2) ys show ?thesis by simp
  qed
  from xy yx have eq: "x = y"
    using nps_total [of x y] by blast
  have "mset xs = mset ys'"
    using Cons.prems(3) ys eq by simp
  moreover have "nps_sorted xs" "nps_sorted ys'"
    using Cons.prems(1,2) ys by simp_all
  ultimately have "xs = ys'"
    using Cons.IH by blast
  with eq ys show ?case by simp
qed

lemma qSort_unique:
  "nps_sorted ys \<Longrightarrow> mset ys = mset xs \<Longrightarrow> qSort normalizedParameterSort xs = ys"
  by (rule nps_sorted_unique) (simp_all add: nps_sorted_qSort mset_qSort)

lemma qSort_sorted_id: "nps_sorted xs \<Longrightarrow> qSort normalizedParameterSort xs = xs"
  by (simp add: qSort_unique)

text \<open>
  Claim C3. The comparator \<open>normalizedParameterSort\<close> is a strict total order on pairs:
  irreflexive, transitive, and any two different pairs are ordered one way or the other.
  Pairs with different keys are ordered by their keys, pairs with the same key by their
  values, in both cases by \<open>QString_less\<close>, which is the lexicographic order of the
  code units. Sorting with it gives an ordered rearrangement of the list, and sorting a
  second time changes nothing.
\<close>

theorem normalizedParameterSort_strict_total_order:
  "\<not> normalizedParameterSort p p
   \<and> (normalizedParameterSort p q \<longrightarrow> normalizedParameterSort q r \<longrightarrow> normalizedParameterSort p r)
   \<and> (normalizedParameterSort p q \<or> p = q \<or> normalizedParameterSort q p)
   \<and> (fst p \<noteq> fst q \<longrightarrow> normalizedParameterSort p q = QString_less (fst p) (fst q))
   \<and> (fst p = fst q \<longrightarrow> normalizedParameterSort p q = QString_less (snd p) (snd q))
   \<and> (QString_less a b \<longleftrightarrow> (a, b) \<in> lexord {(x, y). x < y})
   \<and> nps_sorted (qSort normalizedParameterSort xs)
   \<and> mset (qSort normalizedParameterSort xs) = mset xs
   \<and> qSort normalizedParameterSort (qSort normalizedParameterSort xs)
       = qSort normalizedParameterSort xs"
proof -
  have "qSort normalizedParameterSort (qSort normalizedParameterSort xs)
        = qSort normalizedParameterSort xs"
    by (rule qSort_sorted_id) (rule nps_sorted_qSort)
  moreover have "normalizedParameterSort p q \<longrightarrow> normalizedParameterSort q r
      \<longrightarrow> normalizedParameterSort p r"
    using nps_trans by blast
  moreover have "fst p \<noteq> fst q \<longrightarrow> normalizedParameterSort p q = QString_less (fst p) (fst q)"
    and "fst p = fst q \<longrightarrow> normalizedParameterSort p q = QString_less (snd p) (snd q)"
    by (simp_all add: normalizedParameterSort_def)
  ultimately show ?thesis
    using nps_irrefl [of p] nps_total [of p q] QString_less_lexord [of a b]
      nps_sorted_qSort [of xs] mset_qSort [of normalizedParameterSort xs]
    by blast
qed

text \<open>The comparator and the sort on three pairs, two of them with the same key.\<close>

theorem normalizedParameterSort_strict_total_order_witness:
  "normalizedParameterSort (QLatin1String ''a'', QLatin1String ''2'')
       (QLatin1String ''b'', QLatin1String ''1'')
   \<and> normalizedParameterSort (QLatin1String ''b'', QLatin1String ''1'')
       (QLatin1String ''b'', QLatin1String ''10'')
   \<and> normalizedParameterSort (QLatin1String ''a'', QLatin1String ''2'')
       (QLatin1String ''b'', QLatin1String ''10'')
   \<and> QString_less (QLatin1String ''a'') (QLatin1String ''b'')
   \<and> (QLatin1String ''a'', QLatin1String ''b'') \<in> lexord {(x, y). x < y}
   \<and> qSort normalizedParameterSort
         [(QLatin1String ''b'', QLatin1String ''10''), (QLatin1String ''a'', QLatin1String ''2''),
          (QLatin1String ''b'', QLatin1String ''1'')]
       = [(QLatin1String ''a'', QLatin1String ''2''), (QLatin1String ''b'', QLatin1String ''1''),
          (QLatin1String ''b'', QLatin1String ''10'')]
   \<and> qSort normalizedParameterSort (qSort normalizedParameterSort
         [(QLatin1String ''b'', QLatin1String ''10''), (QLatin1String ''a'', QLatin1String ''2''),
          (QLatin1String ''b'', QLatin1String ''1'')])
       = [(QLatin1String ''a'', QLatin1String ''2''), (QLatin1String ''b'', QLatin1String ''1''),
          (QLatin1String ''b'', QLatin1String ''10'')]"
  using normalizedParameterSort_strict_total_order
    [of "(QLatin1String ''a'', QLatin1String ''2'')" "(QLatin1String ''b'', QLatin1String ''1'')"
        "(QLatin1String ''b'', QLatin1String ''10'')" "QLatin1String ''a''" "QLatin1String ''b''"
        "[(QLatin1String ''b'', QLatin1String ''10''), (QLatin1String ''a'', QLatin1String ''2''),
          (QLatin1String ''b'', QLatin1String ''1'')]"]
  by (simp add: normalizedParameterSort_def QLatin1String_def)

section \<open>Percent-encoding and the encoded parameter list\<close>

lemma percent_copied_spec: "percent_copied c = (c \<in> spec_unreserved)"
  unfolding percent_copied_def spec_unreserved_def QByteArray_lit_def
  apply (simp add: word_le_nat_alt word_unat_eq_iff [where 'a=8])
  apply arith
  done

lemma mask4: "(0xF::8 word) = mask 4"
  by (simp add: mask_eq_exp_minus_1)

lemma lo_nibble: "unat (c AND (0xF::8 word)) = unat c mod 16"
  unfolding mask4 by (simp add: take_bit_eq_mask [symmetric] unsigned_take_bit_eq take_bit_eq_mod unat_mod)

lemma hi_nibble: "unat (drop_bit 4 (c AND 0xF0) AND (0xF::8 word)) = unat c div 16"
proof -
  have "unat c < 256" using unsigned_less [of c, where ?'a = nat] by simp
  then have small: "unat c div 16 < 16" by simp
  have "drop_bit 4 (c AND 0xF0) = drop_bit 4 c AND drop_bit 4 0xF0"
    by (simp add: bit_eq_iff bit_simps)
  also have "drop_bit 4 (0xF0::8 word) = 0xF" by simp
  finally have "unat (drop_bit 4 (c AND 0xF0) AND 0xF) = unat (drop_bit 4 c AND 0xF)"
    by (simp add: and.assoc)
  also have "\<dots> = unat (drop_bit 4 c) mod 16" by (rule lo_nibble)
  also have "\<dots> = unat c div 16"
    using small by (simp add: unat_drop_bit_eq drop_bit_eq_div unat_div)
  finally show ?thesis .
qed

lemma toHexHelper_hi: "toHexHelper (drop_bit 4 (c AND 0xF0)) = spec_hex_digit (unat c div 16)"
  unfolding toHexHelper_def spec_hex_digit_def QByteArray_lit_def hi_nibble ..

lemma toHexHelper_lo: "toHexHelper (c AND 0xF) = spec_hex_digit (unat c mod 16)"
proof -
  have "unat ((c AND 0xF) AND 0xF) = unat c mod 16"
    by (simp add: and.assoc lo_nibble)
  then show ?thesis
    by (simp only: toHexHelper_def spec_hex_digit_def QByteArray_lit_def)
qed

lemma percent_byte_spec: "percent_byte c = spec_percent_byte c"
  unfolding percent_byte_def spec_percent_byte_def percent_copied_spec toHexHelper_hi toHexHelper_lo
  by (simp add: QByteArray_lit_def)

lemma QByteArray_toPercentEncoding_concat:
  "QByteArray_toPercentEncoding ba = concat (map percent_byte ba)"
  by (induction ba) simp_all

lemma toPercentEncoding_spec: "toPercentEncoding s = spec_percent_encode s"
proof -
  have "percent_byte = spec_percent_byte"
    by (rule ext) (rule percent_byte_spec)
  then show ?thesis
    by (simp add: toPercentEncoding_def spec_percent_encode_def
        QByteArray_toPercentEncoding_concat)
qed

lemma encodedParamaterList_loop_spec:
  "encodedParamaterList_loop first resultList ps =
     resultList @ (if ps = [] then []
                   else (if first then [] else QByteArray_lit ''%26'') @ spec_encodedParameterList ps)"
proof (induction ps arbitrary: first resultList rule: spec_encodedParameterList.induct)
  case 1
  then show ?case by simp
next
  case (2 p)
  then show ?case by (simp add: spec_encoded_pair_def toPercentEncoding_spec)
next
  case (3 p r ps)
  show ?case
    using "3.IH" [of False] by (simp add: spec_encoded_pair_def toPercentEncoding_spec)
qed

lemma encodedParamaterList_spec: "encodedParamaterList ps = spec_encodedParameterList ps"
  by (simp add: encodedParamaterList_def encodedParamaterList_loop_spec)

text \<open>
  Claim C2. \<open>encodedParamaterList\<close> writes each pair as the percent-encoded key, the
  token \<open>%3D\<close> and the percent-encoded value, and puts the token \<open>%26\<close> between
  successive pairs. Percent-encoding copies the bytes of the unreserved characters
  \<open>A-Z a-z 0-9 - . _ ~\<close> and writes every other byte of the UTF-8 form as \<open>%\<close> and
  two upper-case hexadecimal digits. The result is a function of the list alone: equal
  lists give equal byte sequences.
\<close>

theorem encodedParamaterList_percent_encoded_join:
  "encodedParamaterList parameters = spec_encodedParameterList parameters
   \<and> toPercentEncoding s = spec_percent_encode s
   \<and> (parameters = parameters' \<longrightarrow>
        encodedParamaterList parameters = encodedParamaterList parameters')"
  by (simp add: encodedParamaterList_spec toPercentEncoding_spec)

text \<open>Two pairs with a space, a slash and a non-ASCII character.\<close>

theorem encodedParamaterList_percent_encoded_join_witness:
  "encodedParamaterList [(QLatin1String ''a b'', QLatin1String ''~/''), (QLatin1String ''c'', [0xE9])]
     = QByteArray_lit ''a%20b%3D~%2F%26c%3D%C3%A9''
   \<and> spec_encodedParameterList
       [(QLatin1String ''a b'', QLatin1String ''~/''), (QLatin1String ''c'', [0xE9])]
     = QByteArray_lit ''a%20b%3D~%2F%26c%3D%C3%A9''
   \<and> toPercentEncoding (QLatin1String ''a b'') = QByteArray_lit ''a%20b''"
  using encodedParamaterList_percent_encoded_join
    [of "[(QLatin1String ''a b'', QLatin1String ''~/''), (QLatin1String ''c'', [0xE9])]"
        "QLatin1String ''a b''"
        "[(QLatin1String ''a b'', QLatin1String ''~/''), (QLatin1String ''c'', [0xE9])]"]
  by (simp add: encodedParamaterList_def qt_eval utf8_tail_def spec_encoded_pair_def
      spec_percent_encode_def spec_percent_byte_def spec_unreserved_def spec_hex_digit_def)

section \<open>The request code against the specification's wording\<close>

lemma insertAdditionalParams_loop_drop:
  "length additionalValues = length additionalKeys \<Longrightarrow>
   insertAdditionalParams_loop additionalKeys additionalValues i requestParams
     = requestParams @ drop i (zip additionalKeys additionalValues)"
proof (induction additionalKeys additionalValues i requestParams
    rule: insertAdditionalParams_loop.induct)
  case (1 ks vs i ps)
  show ?case
  proof (cases "i < length ks")
    case True
    then have "drop i (zip ks vs) = (ks ! i, vs ! i) # drop (Suc i) (zip ks vs)"
      using "1.prems" by (simp add: Cons_nth_drop_Suc [symmetric])
    with True "1.IH" "1.prems" show ?thesis
      by (subst insertAdditionalParams_loop.simps) simp
  next
    case False
    with "1.prems" show ?thesis
      by (subst insertAdditionalParams_loop.simps) simp
  qed
qed

lemma insertAdditionalParams_append:
  "insertAdditionalParams d requestParams = requestParams @ additionalParams d"
  by (simp add: insertAdditionalParams_def QMap_keys_def QMap_values_def
      insertAdditionalParams_loop_drop zip_map_fst_snd)

lemma QMap_ok_sorted: "QMap_ok m = sorted_wrt QString_less (QMap_keys m)"
proof (induction m rule: QMap_ok.induct)
  case (3 p r m)
  have "(\<forall>k\<in>set (map fst m). QString_less (fst p) k)"
    if "QString_less (fst p) (fst r)" "\<forall>k\<in>set (map fst m). QString_less (fst r) k"
    using that QString_less_trans by blast
  with 3 show ?case by (auto simp: QMap_keys_def)
qed (simp_all add: QMap_keys_def)

lemma prepareRequest_TemporaryCredentials:
  "requestType q = TemporaryCredentials \<Longrightarrow>
   prepareRequest w q =
     (True, q\<lparr>d_ptr := (d_ptr q)\<lparr>requestParameters :=
        requestParameters (d_ptr q) @ spec_preparedParameters w (d_ptr q)\<rparr>\<rparr>)"
  by (simp add: prepareRequest_def spec_preparedParameters_def insertAdditionalParams_append
      toPercentEncoding_spec OAUTH_KEY_CALLBACK_def OAUTH_KEY_SIGNATURE_METHOD_def
      OAUTH_KEY_CONSUMER_KEY_def OAUTH_KEY_VERSION_def OAUTH_KEY_TIMESTAMP_def
      OAUTH_KEY_NONCE_def Let_def)

lemma prepareRequest_other:
  "requestType q \<noteq> TemporaryCredentials \<Longrightarrow> prepareRequest w q = (True, q)"
  by (simp add: prepareRequest_def)

lemma requestBaseString_spec:
  "requestBaseString w q =
     (spec_baseString w q,
      q\<lparr>d_ptr := (d_ptr q)\<lparr>requestParameters := spec_parametersAtSigning w q\<rparr>\<rparr>)"
proof (cases "requestType q = TemporaryCredentials")
  case True
  then show ?thesis
    by (simp add: requestBaseString_def prepareRequest_TemporaryCredentials spec_baseString_def
        spec_parametersAtSigning_def toPercentEncoding_spec encodedParamaterList_spec Let_def)
next
  case False
  then show ?thesis
    by (simp add: requestBaseString_def prepareRequest_other spec_baseString_def
        spec_parametersAtSigning_def toPercentEncoding_spec encodedParamaterList_spec Let_def)
qed

lemma oauthSignature_spec:
  "oauthSignature w q =
     (spec_signature w q,
      q\<lparr>d_ptr := (d_ptr q)\<lparr>requestParameters := spec_parametersAtSigning w q\<rparr>\<rparr>)"
  by (simp add: oauthSignature_def requestBaseString_spec spec_signature_def)

lemma signRequest_spec:
  "signRequest w q =
     q\<lparr>d_ptr := (d_ptr q)\<lparr>requestParameters :=
        spec_parametersAtSigning w q @ [(QLatin1String ''oauth_signature'', spec_signature w q)]\<rparr>\<rparr>"
  by (simp add: signRequest_def oauthSignature_spec OAUTH_KEY_SIGNATURE_def)

lemma requestParameters_loop_map:
  "requestParameters_loop requestParamList ps = requestParamList @ map spec_key_value ps"
  by (induction ps arbitrary: requestParamList) (simp_all add: spec_key_value_def)

lemma KQOAuthRequest_requestParameters_spec:
  "KQOAuthRequest_requestParameters w q =
     ((if validateRequest q then
         [''Request is not valid! I will still sign it, but it will probably not work.'']
       else []),
      map spec_key_value
        (spec_parametersAtSigning w q @ [(QLatin1String ''oauth_signature'', spec_signature w q)]),
      signRequest w q)"
  by (simp add: KQOAuthRequest_requestParameters_def requestParameters_loop_map
      signRequest_spec Let_def)

section \<open>The example request, step by step\<close>

lemma example_request_value:
  "example_request =
     \<lparr>requestType = TemporaryCredentials,
      d_ptr = \<lparr>oauthRequestEndpoint = example_endpoint, oauthCallbackUrl = example_callback,
        oauthConsumerKey = QLatin1String ''ck'', oauthConsumerSecretKey = QLatin1String ''cs'',
        oauthTokenSecret = [], oauthSignatureMethod = QLatin1String ''HMAC_SHA1'',
        oauthHttpMethod = QLatin1String ''POST'', oauthVersion = QLatin1String ''1.0'',
        oauthTimestamp_field = QLatin1String ''1300000000'',
        oauthNonce_field = QLatin1String ''3133'',
        additionalParams = [(QLatin1String ''a'', QLatin1String ''1''),
                            (QLatin1String ''b'', QLatin1String ''2 3'')],
        requestParameters = []\<rparr>\<rparr>"
  by (simp add: example_request_def example_world_def example_endpoint_def
      setAdditionalParameters_def setConsumerSecretKey_def setConsumerKey_def setCallbackUrl_def
      initRequest_def KQOAuthRequest_new_def KQOAuthRequestPrivate_new_def setSignatureMethod_def
      setHttpMethod_def oauthTimestamp_def oauthNonce_def
      TemporaryCredentials_def AccessToken_def HMAC_SHA1_def PLAINTEXT_def POST_def GET_def
      qt_eval)

lemma example_prepared:
  "spec_preparedParameters example_world (d_ptr example_request) =
     [(QLatin1String ''oauth_callback'', QLatin1String ''http%3A%2F%2Fc%2Fd''),
      (QLatin1String ''oauth_signature_method'', QLatin1String ''HMAC_SHA1''),
      (QLatin1String ''oauth_consumer_key'', QLatin1String ''ck''),
      (QLatin1String ''oauth_version'', QLatin1String ''1.0''),
      (QLatin1String ''oauth_timestamp'', QLatin1String ''1300000000''),
      (QLatin1String ''oauth_nonce'', QLatin1String ''3133''),
      (QLatin1String ''a'', QLatin1String ''1''),
      (QLatin1String ''b'', QLatin1String ''2 3'')]"
  by (simp add: example_request_value spec_preparedParameters_def toPercentEncoding_spec [symmetric]
      example_callback_def oauthTimestamp_def oauthNonce_def qt_eval)


lemma example_requestType: "requestType example_request = TemporaryCredentials"
  by (simp add: example_request_value)

lemma example_stored: "requestParameters (d_ptr example_request) = []"
  by (simp add: example_request_value)

lemma example_parametersAtSigning:
  "spec_parametersAtSigning example_world example_request =
     [(QLatin1String ''a'', QLatin1String ''1''),
      (QLatin1String ''b'', QLatin1String ''2 3''),
      (QLatin1String ''oauth_callback'', QLatin1String ''http%3A%2F%2Fc%2Fd''),
      (QLatin1String ''oauth_consumer_key'', QLatin1String ''ck''),
      (QLatin1String ''oauth_nonce'', QLatin1String ''3133''),
      (QLatin1String ''oauth_signature_method'', QLatin1String ''HMAC_SHA1''),
      (QLatin1String ''oauth_timestamp'', QLatin1String ''1300000000''),
      (QLatin1String ''oauth_version'', QLatin1String ''1.0'')]"
  unfolding spec_parametersAtSigning_def example_prepared example_stored
  by (simp add: example_requestType normalizedParameterSort_def QLatin1String_def)

lemma example_baseString:
  "spec_baseString example_world example_request =
     QByteArray_lit ''POST&http%3A%2F%2Fa.b%2Ft&a%3D1%26b%3D2%203%26oauth_callback%3Dhttp%253A%252F%252Fc%252Fd%26oauth_consumer_key%3Dck%26oauth_nonce%3D3133%26oauth_signature_method%3DHMAC_SHA1%26oauth_timestamp%3D1300000000%26oauth_version%3D1.0''"
  unfolding spec_baseString_def example_parametersAtSigning
  by (simp add: example_request_value example_endpoint_def
      encodedParamaterList_spec [symmetric] toPercentEncoding_spec [symmetric]
      encodedParamaterList_def qt_eval)

lemma example_signature:
  "spec_signature example_world example_request = QLatin1String ''cs&226''"
  unfolding spec_signature_def example_baseString
  by (simp add: example_request_value example_world_def QLatin1String_def QByteArray_lit_def
      QString_number_def number_digits.simps)

lemma example_signed_request_value:
  "example_signed_request =
     example_request\<lparr>d_ptr := (d_ptr example_request)\<lparr>requestParameters :=
       [(QLatin1String ''a'', QLatin1String ''1''),
        (QLatin1String ''b'', QLatin1String ''2 3''),
        (QLatin1String ''oauth_callback'', QLatin1String ''http%3A%2F%2Fc%2Fd''),
        (QLatin1String ''oauth_consumer_key'', QLatin1String ''ck''),
        (QLatin1String ''oauth_nonce'', QLatin1String ''3133''),
        (QLatin1String ''oauth_signature_method'', QLatin1String ''HMAC_SHA1''),
        (QLatin1String ''oauth_timestamp'', QLatin1String ''1300000000''),
        (QLatin1String ''oauth_version'', QLatin1String ''1.0''),
        (QLatin1String ''oauth_signature'', QLatin1String ''cs&226'')]\<rparr>\<rparr>"
  unfolding example_signed_request_def KQOAuthRequest_requestParameters_spec signRequest_spec
    example_parametersAtSigning example_signature
  by simp

lemma example_signed_prepared:
  "spec_preparedParameters example_world (d_ptr example_signed_request)
     = spec_preparedParameters example_world (d_ptr example_request)"
  by (simp add: example_signed_request_value spec_preparedParameters_def oauthTimestamp_def
      oauthNonce_def)

lemma example_signed_parametersAtSigning:
  "spec_parametersAtSigning example_world example_signed_request =
     [(QLatin1String ''a'', QLatin1String ''1''),
      (QLatin1String ''a'', QLatin1String ''1''),
      (QLatin1String ''b'', QLatin1String ''2 3''),
      (QLatin1String ''b'', QLatin1String ''2 3''),
      (QLatin1String ''oauth_callback'', QLatin1String ''http%3A%2F%2Fc%2Fd''),
      (QLatin1String ''oauth_callback'', QLatin1String ''http%3A%2F%2Fc%2Fd''),
      (QLatin1String ''oauth_consumer_key'', QLatin1String ''ck''),
      (QLatin1String ''oauth_consumer_key'', QLatin1String ''ck''),
      (QLatin1String ''oauth_nonce'', QLatin1String ''3133''),
      (QLatin1String ''oauth_nonce'', QLatin1String ''3133''),
      (QLatin1String ''oauth_signature'', QLatin1String ''cs&226''),
      (QLatin1String ''oauth_signature_method'', QLatin1String ''HMAC_SHA1''),
      (QLatin1String ''oauth_signature_method'', QLatin1String ''HMAC_SHA1''),
      (QLatin1String ''oauth_timestamp'', QLatin1String ''1300000000''),
      (QLatin1String ''oauth_timestamp'', QLatin1String ''1300000000''),
      (QLatin1String ''oauth_version'', QLatin1String ''1.0''),
      (QLatin1String ''oauth_version'', QLatin1String ''1.0'')]"
proof -
  have "requestType example_signed_request = TemporaryCredentials"
    by (simp add: example_signed_request_value example_requestType)
  then show ?thesis
    unfolding spec_parametersAtSigning_def example_signed_prepared example_prepared
    by (simp add: example_signed_request_value normalizedParameterSort_def QLatin1String_def)
qed

lemma example_signed_baseString:
  "spec_baseString example_world example_signed_request =
     QByteArray_lit ''POST&http%3A%2F%2Fa.b%2Ft&a%3D1%26a%3D1%26b%3D2%203%26b%3D2%203%26oauth_callback%3Dhttp%253A%252F%252Fc%252Fd%26oauth_callback%3Dhttp%253A%252F%252Fc%252Fd%26oauth_consumer_key%3Dck%26oauth_consumer_key%3Dck%26oauth_nonce%3D3133%26oauth_nonce%3D3133%26oauth_signature%3Dcs%26226%26oauth_signature_method%3DHMAC_SHA1%26oauth_signature_method%3DHMAC_SHA1%26oauth_timestamp%3D1300000000%26oauth_timestamp%3D1300000000%26oauth_version%3D1.0%26oauth_version%3D1.0''"
  unfolding spec_baseString_def example_signed_parametersAtSigning
  by (simp add: example_signed_request_value example_request_value example_endpoint_def
      encodedParamaterList_spec [symmetric] toPercentEncoding_spec [symmetric]
      encodedParamaterList_def qt_eval)

lemma example_signed_signature:
  "spec_signature example_world example_signed_request = QLatin1String ''cs&458''"
  unfolding spec_signature_def example_signed_baseString
  by (simp add: example_signed_request_value example_request_value example_world_def
      QLatin1String_def QByteArray_lit_def QString_number_def number_digits.simps)

lemma example_unset_request_value:
  "example_unset_request =
     \<lparr>requestType = TemporaryCredentials,
      d_ptr = \<lparr>oauthRequestEndpoint = QUrl_default, oauthCallbackUrl = QUrl_default,
        oauthConsumerKey = [], oauthConsumerSecretKey = [],
        oauthTokenSecret = [], oauthSignatureMethod = QLatin1String ''HMAC_SHA1'',
        oauthHttpMethod = QLatin1String ''POST'', oauthVersion = QLatin1String ''1.0'',
        oauthTimestamp_field = [], oauthNonce_field = [],
        additionalParams = [], requestParameters = []\<rparr>\<rparr>"
  by (simp add: example_unset_request_def KQOAuthRequest_new_def KQOAuthRequestPrivate_new_def
      setSignatureMethod_def setHttpMethod_def HMAC_SHA1_def PLAINTEXT_def POST_def GET_def)

lemma example_unset_parametersAtSigning:
  "spec_parametersAtSigning example_world example_unset_request =
     [(QLatin1String ''oauth_callback'', []),
      (QLatin1String ''oauth_consumer_key'', []),
      (QLatin1String ''oauth_nonce'', QLatin1String ''3133''),
      (QLatin1String ''oauth_signature_method'', QLatin1String ''HMAC_SHA1''),
      (QLatin1String ''oauth_timestamp'', QLatin1String ''1300000000''),
      (QLatin1String ''oauth_version'', QLatin1String ''1.0'')]"
  by (simp add: spec_parametersAtSigning_def example_unset_request_value
      spec_preparedParameters_def toPercentEncoding_spec [symmetric] example_world_def
      oauthTimestamp_def oauthNonce_def normalizedParameterSort_def qt_eval)

lemma example_unset_signature:
  "spec_signature example_world example_unset_request = QLatin1String ''&158''"
  unfolding spec_signature_def spec_baseString_def example_unset_parametersAtSigning
  by (simp add: example_unset_request_value example_world_def
      encodedParamaterList_spec [symmetric] toPercentEncoding_spec [symmetric]
      encodedParamaterList_def QString_number_def number_digits.simps qt_eval)


lemma example_reinitialised_request_value:
  "example_reinitialised_request = example_signed_request\<lparr>requestType := ResourceOwnerAuth\<rparr>"
proof -
  have "QUrl_isValid example_endpoint"
    by (simp add: example_endpoint_def QUrl_isValid_def QUrl_isEmpty_def QLatin1String_def)
  then show ?thesis
    by (simp add: example_reinitialised_request_def initRequest_def Let_def
        example_signed_request_value example_request_value oauthTimestamp_def oauthNonce_def
        QLatin1String_def)
qed

text \<open>
  Claim C1. The base string is the HTTP method token, \<open>&\<close>, the percent-encoded
  endpoint printed without its query, \<open>&\<close>, and the encoded parameter list. The list
  that is encoded is the stored list after \<open>prepareRequest\<close>: sorted with the comparator
  for a temporary-credentials request, as it is for every other request type. The method
  token is the one \<open>setHttpMethod\<close> stored, \<open>GET\<close> or \<open>POST\<close>.
\<close>

theorem requestBaseString_structure:
  "fst (requestBaseString w q) =
      toUtf8 (oauthHttpMethod (d_ptr q)) @ QByteArray_lit ''&''
      @ spec_percent_encode (QUrl_toString (oauthRequestEndpoint (d_ptr q)) RemoveQuery)
      @ QByteArray_lit ''&''
      @ spec_encodedParameterList (requestParameters (d_ptr (snd (requestBaseString w q))))
   \<and> (requestType q = TemporaryCredentials \<longrightarrow>
        requestParameters (d_ptr (snd (requestBaseString w q)))
          = qSort normalizedParameterSort (requestParameters (d_ptr (snd (prepareRequest w q))))
        \<and> nps_sorted (requestParameters (d_ptr (snd (requestBaseString w q))))
        \<and> mset (requestParameters (d_ptr (snd (requestBaseString w q))))
          = mset (requestParameters (d_ptr (snd (prepareRequest w q)))))
   \<and> (requestType q \<noteq> TemporaryCredentials \<longrightarrow>
        requestParameters (d_ptr (snd (requestBaseString w q)))
          = requestParameters (d_ptr (snd (prepareRequest w q)))
        \<and> requestParameters (d_ptr (snd (requestBaseString w q))) = requestParameters (d_ptr q))
   \<and> oauthHttpMethod (d_ptr (snd (setHttpMethod GET q0))) = QLatin1String ''GET''
   \<and> oauthHttpMethod (d_ptr (snd (setHttpMethod POST q0))) = QLatin1String ''POST''"
proof -
  have base: "fst (requestBaseString w q) =
      toUtf8 (oauthHttpMethod (d_ptr q)) @ QByteArray_lit ''&''
      @ spec_percent_encode (QUrl_toString (oauthRequestEndpoint (d_ptr q)) RemoveQuery)
      @ QByteArray_lit ''&''
      @ spec_encodedParameterList (requestParameters (d_ptr (snd (requestBaseString w q))))"
    by (simp add: requestBaseString_spec spec_baseString_def)
  have tc: "requestParameters (d_ptr (snd (requestBaseString w q)))
          = qSort normalizedParameterSort (requestParameters (d_ptr (snd (prepareRequest w q))))"
    if "requestType q = TemporaryCredentials"
    using that
    by (simp add: requestBaseString_spec spec_parametersAtSigning_def
        prepareRequest_TemporaryCredentials)
  have other: "requestParameters (d_ptr (snd (requestBaseString w q))) = requestParameters (d_ptr q)"
      "requestParameters (d_ptr (snd (prepareRequest w q))) = requestParameters (d_ptr q)"
    if "requestType q \<noteq> TemporaryCredentials"
    using that
    by (simp_all add: requestBaseString_spec spec_parametersAtSigning_def prepareRequest_other)
  have methods: "oauthHttpMethod (d_ptr (snd (setHttpMethod GET q0))) = QLatin1String ''GET''"
      "oauthHttpMethod (d_ptr (snd (setHttpMethod POST q0))) = QLatin1String ''POST''"
    by (simp_all add: setHttpMethod_def GET_def POST_def)
  show ?thesis
    using base tc other methods
    by (simp add: nps_sorted_qSort mset_qSort)
qed

text \<open>
  The example request, and the same object initialised again as a resource-owner
  request: its stored list ends with the signature pair and stays in that order.
\<close>

theorem requestBaseString_structure_witness:
  "requestType example_request = TemporaryCredentials
   \<and> fst (requestBaseString example_world example_request) =
     QByteArray_lit ''POST&http%3A%2F%2Fa.b%2Ft&a%3D1%26b%3D2%203%26oauth_callback%3Dhttp%253A%252F%252Fc%252Fd%26oauth_consumer_key%3Dck%26oauth_nonce%3D3133%26oauth_signature_method%3DHMAC_SHA1%26oauth_timestamp%3D1300000000%26oauth_version%3D1.0''
   \<and> requestParameters (d_ptr (snd (requestBaseString example_world example_request)))
     = qSort normalizedParameterSort
         (requestParameters (d_ptr (snd (prepareRequest example_world example_request))))
   \<and> map fst (requestParameters (d_ptr (snd (requestBaseString example_world example_request))))
     = map QLatin1String [''a'', ''b'', ''oauth_callback'', ''oauth_consumer_key'', ''oauth_nonce'',
         ''oauth_signature_method'', ''oauth_timestamp'', ''oauth_version'']
   \<and> requestType example_reinitialised_request \<noteq> TemporaryCredentials
   \<and> map fst (requestParameters
        (d_ptr (snd (requestBaseString example_world example_reinitialised_request))))
     = map QLatin1String [''a'', ''b'', ''oauth_callback'', ''oauth_consumer_key'', ''oauth_nonce'',
         ''oauth_signature_method'', ''oauth_timestamp'', ''oauth_version'', ''oauth_signature'']"
proof -
  have tc: "requestType example_request = TemporaryCredentials"
    by (rule example_requestType)
  have other: "requestType example_reinitialised_request \<noteq> TemporaryCredentials"
    by (simp add: example_reinitialised_request_value TemporaryCredentials_def
        ResourceOwnerAuth_def)
  have sorted: "requestParameters (d_ptr (snd (requestBaseString example_world example_request)))
     = qSort normalizedParameterSort
         (requestParameters (d_ptr (snd (prepareRequest example_world example_request))))"
    using requestBaseString_structure [of example_world example_request] tc by blast
  have kept: "requestParameters
        (d_ptr (snd (requestBaseString example_world example_reinitialised_request)))
      = requestParameters (d_ptr example_reinitialised_request)"
    using requestBaseString_structure [of example_world example_reinitialised_request] other
    by blast
  have base: "fst (requestBaseString example_world example_request) =
     QByteArray_lit ''POST&http%3A%2F%2Fa.b%2Ft&a%3D1%26b%3D2%203%26oauth_callback%3Dhttp%253A%252F%252Fc%252Fd%26oauth_consumer_key%3Dck%26oauth_nonce%3D3133%26oauth_signature_method%3DHMAC_SHA1%26oauth_timestamp%3D1300000000%26oauth_version%3D1.0''"
    by (simp add: requestBaseString_spec example_baseString)
  have keys: "map fst (requestParameters
        (d_ptr (snd (requestBaseString example_world example_request))))
     = map QLatin1String [''a'', ''b'', ''oauth_callback'', ''oauth_consumer_key'', ''oauth_nonce'',
         ''oauth_signature_method'', ''oauth_timestamp'', ''oauth_version'']"
    by (simp add: requestBaseString_spec example_parametersAtSigning)
  have keys': "map fst (requestParameters (d_ptr example_reinitialised_request))
     = map QLatin1String [''a'', ''b'', ''oauth_callback'', ''oauth_consumer_key'', ''oauth_nonce'',
         ''oauth_signature_method'', ''oauth_timestamp'', ''oauth_version'', ''oauth_signature'']"
    by (simp add: example_reinitialised_request_value example_signed_request_value)
  show ?thesis
    using tc other sorted base keys keys' kept by simp
qed

text \<open>
  Claim C4. For a temporary-credentials request \<open>prepareRequest\<close> appends to the stored
  list \<open>oauth_callback\<close> with the percent-encoded callback URL, then
  \<open>oauth_signature_method\<close>, \<open>oauth_consumer_key\<close>, \<open>oauth_version\<close>, \<open>oauth_timestamp\<close>
  and \<open>oauth_nonce\<close>, and last the additional parameters as they are, one pair for each
  key in the key order of the mapping.
\<close>

theorem prepareRequest_appends_in_order:
  assumes "requestType q = TemporaryCredentials"
  shows "prepareRequest w q =
     (True, q\<lparr>d_ptr := (d_ptr q)\<lparr>requestParameters :=
        requestParameters (d_ptr q)
        @ [(QLatin1String ''oauth_callback'',
            QString_fromAscii
              (spec_percent_encode (QUrl_toString (oauthCallbackUrl (d_ptr q)) QUrl_None))),
           (QLatin1String ''oauth_signature_method'', oauthSignatureMethod (d_ptr q)),
           (QLatin1String ''oauth_consumer_key'', oauthConsumerKey (d_ptr q)),
           (QLatin1String ''oauth_version'', oauthVersion (d_ptr q)),
           (QLatin1String ''oauth_timestamp'', oauthTimestamp w (d_ptr q)),
           (QLatin1String ''oauth_nonce'', oauthNonce w (d_ptr q))]
        @ zip (QMap_keys (additionalParams (d_ptr q)))
            (QMap_values (additionalParams (d_ptr q)))\<rparr>\<rparr>)
     \<and> zip (QMap_keys (additionalParams (d_ptr q))) (QMap_values (additionalParams (d_ptr q)))
       = additionalParams (d_ptr q)
     \<and> (QMap_ok (additionalParams (d_ptr q)) \<longrightarrow>
          sorted_wrt QString_less (QMap_keys (additionalParams (d_ptr q))))"
  using assms
  by (simp add: prepareRequest_TemporaryCredentials spec_preparedParameters_def QMap_keys_def
      QMap_values_def zip_map_fst_snd QMap_ok_sorted [unfolded QMap_keys_def])

theorem prepareRequest_appends_in_order_witness:
  "requestType example_request = TemporaryCredentials
   \<and> QMap_ok (additionalParams (d_ptr example_request))
   \<and> requestParameters (d_ptr (snd (prepareRequest example_world example_request))) =
     [(QLatin1String ''oauth_callback'', QLatin1String ''http%3A%2F%2Fc%2Fd''),
      (QLatin1String ''oauth_signature_method'', QLatin1String ''HMAC_SHA1''),
      (QLatin1String ''oauth_consumer_key'', QLatin1String ''ck''),
      (QLatin1String ''oauth_version'', QLatin1String ''1.0''),
      (QLatin1String ''oauth_timestamp'', QLatin1String ''1300000000''),
      (QLatin1String ''oauth_nonce'', QLatin1String ''3133''),
      (QLatin1String ''a'', QLatin1String ''1''),
      (QLatin1String ''b'', QLatin1String ''2 3'')]
   \<and> sorted_wrt QString_less (QMap_keys (additionalParams (d_ptr example_request)))"
proof -
  have tc: "requestType example_request = TemporaryCredentials"
    by (rule example_requestType)
  have ok: "QMap_ok (additionalParams (d_ptr example_request))"
    by (simp add: example_request_value QLatin1String_def)
  note inst = prepareRequest_appends_in_order [OF tc, of example_world]
  from inst ok have sorted: "sorted_wrt QString_less (QMap_keys (additionalParams (d_ptr example_request)))"
    by blast
  have "requestParameters (d_ptr (snd (prepareRequest example_world example_request))) =
      requestParameters (d_ptr example_request)
      @ spec_preparedParameters example_world (d_ptr example_request)"
    using inst by (simp add: spec_preparedParameters_def)
  then show ?thesis
    using tc ok sorted by (simp add: example_prepared example_stored)
qed

text \<open>
  Claim C5. The signature is \<open>hmac_sta1\<close> of the base string under the key made of the
  consumer secret, \<open>&\<close> and the token secret; with an empty token secret the key still
  ends with \<open>&\<close>.
\<close>

theorem oauthSignature_hmac_key:
  "fst (oauthSignature w q) =
     hmac_sta1 w (fst (requestBaseString w q))
       (oauthConsumerSecretKey (d_ptr q) @ QLatin1String ''&'' @ oauthTokenSecret (d_ptr q))
   \<and> (oauthTokenSecret (d_ptr q) = [] \<longrightarrow>
        fst (oauthSignature w q) =
          hmac_sta1 w (fst (requestBaseString w q))
            (oauthConsumerSecretKey (d_ptr q) @ QLatin1String ''&''))
   \<and> snd (oauthSignature w q) = snd (requestBaseString w q)"
  by (simp add: oauthSignature_spec requestBaseString_spec spec_signature_def)

text \<open>
  The example request has no token secret; the stand-in digest of \<open>example_world\<close>
  returns its key, \<open>cs&\<close>, followed by the length of the base string.
\<close>

theorem oauthSignature_hmac_key_witness:
  "oauthTokenSecret (d_ptr example_request) = []
   \<and> oauthConsumerSecretKey (d_ptr example_request) = QLatin1String ''cs''
   \<and> hmac_sta1 example_world (fst (requestBaseString example_world example_request))
       (QLatin1String ''cs'' @ QLatin1String ''&'') = QLatin1String ''cs&226''
   \<and> fst (oauthSignature example_world example_request) = QLatin1String ''cs&226''"
proof -
  have empty: "oauthTokenSecret (d_ptr example_request) = []"
    and secret: "oauthConsumerSecretKey (d_ptr example_request) = QLatin1String ''cs''"
    by (simp_all add: example_request_value)
  have "fst (oauthSignature example_world example_request) =
      hmac_sta1 example_world (fst (requestBaseString example_world example_request))
        (oauthConsumerSecretKey (d_ptr example_request) @ QLatin1String ''&'')"
    using oauthSignature_hmac_key [of example_world example_request] empty by blast
  moreover have "fst (oauthSignature example_world example_request) = QLatin1String ''cs&226''"
    by (simp add: oauthSignature_spec example_signature)
  ultimately show ?thesis
    using empty secret by simp
qed

text \<open>
  Claim C7. \<open>validateRequest\<close> returns true exactly when the request type is
  \<open>TemporaryCredentials\<close> and the endpoint, the callback URL, the consumer key, the
  nonce, the signature method, the timestamp and the version are all non-empty. For
  \<open>ResourceOwnerAuth\<close> and \<open>AccessToken\<close> it returns false whatever the fields hold.
\<close>

theorem validateRequest_iff:
  "validateRequest q =
     (requestType q = TemporaryCredentials
      \<and> \<not> QUrl_isEmpty (oauthRequestEndpoint (d_ptr q))
      \<and> \<not> QUrl_isEmpty (oauthCallbackUrl (d_ptr q))
      \<and> oauthConsumerKey (d_ptr q) \<noteq> []
      \<and> oauthNonce_field (d_ptr q) \<noteq> []
      \<and> oauthSignatureMethod (d_ptr q) \<noteq> []
      \<and> oauthTimestamp_field (d_ptr q) \<noteq> []
      \<and> oauthVersion (d_ptr q) \<noteq> [])
   \<and> (requestType q = ResourceOwnerAuth \<or> requestType q = AccessToken \<longrightarrow>
        \<not> validateRequest q)"
  by (auto simp: validateRequest_def Let_def TemporaryCredentials_def ResourceOwnerAuth_def
      AccessToken_def)

text \<open>
  The example request is valid; it stops being valid when its consumer key is emptied,
  and when its type is changed to either of the other two.
\<close>

theorem validateRequest_iff_witness:
  "validateRequest example_request
   \<and> \<not> validateRequest (setConsumerKey [] example_request)
   \<and> \<not> validateRequest (example_request\<lparr>requestType := ResourceOwnerAuth\<rparr>)
   \<and> \<not> validateRequest (example_request\<lparr>requestType := AccessToken\<rparr>)
   \<and> \<not> validateRequest example_unset_request"
  using validateRequest_iff [of example_request]
    validateRequest_iff [of "setConsumerKey [] example_request"]
    validateRequest_iff [of "example_request\<lparr>requestType := ResourceOwnerAuth\<rparr>"]
    validateRequest_iff [of "example_request\<lparr>requestType := AccessToken\<rparr>"]
    validateRequest_iff [of example_unset_request]
  by (simp add: example_request_value example_unset_request_value setConsumerKey_def
      example_endpoint_def example_callback_def QUrl_isEmpty_def QUrl_default_def
      QLatin1String_def TemporaryCredentials_def ResourceOwnerAuth_def AccessToken_def)

text \<open>
  Claim C8. When \<open>validateRequest\<close> returns false, \<open>requestParameters()\<close> still signs
  the request: the stored list becomes the list the base string was computed from with
  the \<open>oauth_signature\<close> pair appended, and the call returns every stored pair printed
  as \<open>key=value\<close>, the signature last.
\<close>

theorem requestParameters_signs_invalid_request:
  assumes "\<not> validateRequest q"
  shows "requestParameters (d_ptr (snd (snd (KQOAuthRequest_requestParameters w q))))
       = requestParameters (d_ptr (snd (requestBaseString w q)))
         @ [(OAUTH_KEY_SIGNATURE, fst (oauthSignature w q))]
     \<and> fst (snd (KQOAuthRequest_requestParameters w q))
       = map spec_key_value
           (requestParameters (d_ptr (snd (snd (KQOAuthRequest_requestParameters w q)))))
     \<and> last (fst (snd (KQOAuthRequest_requestParameters w q)))
       = toUtf8 (QLatin1String ''oauth_signature'' @ QLatin1String ''=''
           @ fst (oauthSignature w q))
     \<and> snd (snd (KQOAuthRequest_requestParameters w q)) = signRequest w q"
  by (simp add: KQOAuthRequest_requestParameters_spec signRequest_spec oauthSignature_spec
      requestBaseString_spec OAUTH_KEY_SIGNATURE_def spec_key_value_def)

text \<open>
  A request that was constructed and never initialised: no endpoint, no callback, no
  consumer key. It is not valid, and the call returns six parameters and a signature.
\<close>

theorem requestParameters_signs_invalid_request_witness:
  "\<not> validateRequest example_unset_request
   \<and> fst (snd (KQOAuthRequest_requestParameters example_world example_unset_request))
     = map QByteArray_lit
         [''oauth_callback='', ''oauth_consumer_key='', ''oauth_nonce=3133'',
          ''oauth_signature_method=HMAC_SHA1'', ''oauth_timestamp=1300000000'',
          ''oauth_version=1.0'', ''oauth_signature=&158'']
   \<and> last (fst (snd (KQOAuthRequest_requestParameters example_world example_unset_request)))
     = toUtf8 (QLatin1String ''oauth_signature'' @ QLatin1String ''=''
         @ fst (oauthSignature example_world example_unset_request))"
proof -
  have invalid: "\<not> validateRequest example_unset_request"
    by (simp add: validateRequest_def example_unset_request_value QUrl_isEmpty_def
        QUrl_default_def)
  note inst = requestParameters_signs_invalid_request [OF invalid, of example_world]
  have "fst (snd (KQOAuthRequest_requestParameters example_world example_unset_request))
     = map QByteArray_lit
         [''oauth_callback='', ''oauth_consumer_key='', ''oauth_nonce=3133'',
          ''oauth_signature_method=HMAC_SHA1'', ''oauth_timestamp=1300000000'',
          ''oauth_version=1.0'', ''oauth_signature=&158'']"
    by (simp add: KQOAuthRequest_requestParameters_spec example_unset_parametersAtSigning
        example_unset_signature spec_key_value_def QLatin1String_def QByteArray_lit_def)
  with invalid inst show ?thesis by simp
qed

lemma spec_protocolKeys_no_signature: "OAUTH_KEY_SIGNATURE \<notin> set spec_protocolKeys"
  by (simp add: spec_protocolKeys_def OAUTH_KEY_SIGNATURE_def QLatin1String_def)

lemma spec_protocolKeys_distinct: "distinct spec_protocolKeys"
  by (simp add: spec_protocolKeys_def QLatin1String_def)

lemma spec_preparedParameters_keys:
  "map fst (spec_preparedParameters w d) = spec_protocolKeys @ QMap_keys (additionalParams d)"
  by (simp add: spec_preparedParameters_def spec_protocolKeys_def QMap_keys_def)

lemma spec_parametersAtSigning_keys:
  "set (map fst (spec_parametersAtSigning w q)) \<subseteq>
     set (map fst (requestParameters (d_ptr q))) \<union> set spec_protocolKeys
       \<union> set (QMap_keys (additionalParams (d_ptr q)))"
proof -
  have "set (spec_parametersAtSigning w q) \<subseteq>
      set (requestParameters (d_ptr q)) \<union> set (spec_preparedParameters w (d_ptr q))"
    by (simp add: spec_parametersAtSigning_def set_qSort)
  then have "fst ` set (spec_parametersAtSigning w q) \<subseteq>
      fst ` set (requestParameters (d_ptr q)) \<union> fst ` set (spec_preparedParameters w (d_ptr q))"
    by blast
  moreover have "fst ` set (spec_preparedParameters w (d_ptr q)) =
      set spec_protocolKeys \<union> set (QMap_keys (additionalParams (d_ptr q)))"
    using spec_preparedParameters_keys [of w "d_ptr q"]
    by (metis set_append set_map)
  ultimately show ?thesis by (simp add: Un_assoc)
qed

text \<open>
  Where the code keeps the signature out of its own base string: when neither the
  stored list nor the additional parameters hold a pair named \<open>oauth_signature\<close>, as
  on the first call on a new request, the list the base string is computed from holds
  none either, and \<open>requestParameters()\<close> leaves that list with the signature pair
  appended: \<open>oauth_signature\<close> is in the stored list once, and it is the last pair.
\<close>

theorem signature_appended_once_after_signing:
  assumes "OAUTH_KEY_SIGNATURE \<notin> fst ` set (requestParameters (d_ptr q))"
    and "OAUTH_KEY_SIGNATURE \<notin> fst ` set (additionalParams (d_ptr q))"
  shows "OAUTH_KEY_SIGNATURE \<notin> fst ` set (requestParameters (d_ptr (snd (requestBaseString w q))))
     \<and> requestParameters (d_ptr (snd (snd (KQOAuthRequest_requestParameters w q))))
       = requestParameters (d_ptr (snd (requestBaseString w q)))
         @ [(OAUTH_KEY_SIGNATURE, fst (oauthSignature w q))]
     \<and> length (filter (\<lambda>p. fst p = OAUTH_KEY_SIGNATURE)
         (requestParameters (d_ptr (snd (snd (KQOAuthRequest_requestParameters w q)))))) = 1
     \<and> fst (last (requestParameters (d_ptr (snd (snd (KQOAuthRequest_requestParameters w q))))))
       = OAUTH_KEY_SIGNATURE"
proof -
  have absent: "OAUTH_KEY_SIGNATURE \<notin> fst ` set (spec_parametersAtSigning w q)"
    using spec_parametersAtSigning_keys [of w q] assms spec_protocolKeys_no_signature
    by (auto simp: QMap_keys_def)
  then have "filter (\<lambda>p. fst p = OAUTH_KEY_SIGNATURE) (spec_parametersAtSigning w q) = []"
    by (force simp: filter_empty_conv)
  with absent show ?thesis
    by (simp add: KQOAuthRequest_requestParameters_spec signRequest_spec oauthSignature_spec
        requestBaseString_spec OAUTH_KEY_SIGNATURE_def)
qed

text \<open>The first call on the example request.\<close>

theorem signature_appended_once_after_signing_witness:
  "OAUTH_KEY_SIGNATURE \<notin> fst ` set (requestParameters (d_ptr example_request))
   \<and> OAUTH_KEY_SIGNATURE \<notin> fst ` set (additionalParams (d_ptr example_request))
   \<and> OAUTH_KEY_SIGNATURE \<notin>
       fst ` set (requestParameters (d_ptr (snd (requestBaseString example_world example_request))))
   \<and> length (filter (\<lambda>p. fst p = OAUTH_KEY_SIGNATURE)
       (requestParameters
          (d_ptr (snd (snd (KQOAuthRequest_requestParameters example_world example_request))))))
     = 1
   \<and> last (requestParameters
        (d_ptr (snd (snd (KQOAuthRequest_requestParameters example_world example_request)))))
     = (QLatin1String ''oauth_signature'', QLatin1String ''cs&226'')"
proof -
  have stored: "OAUTH_KEY_SIGNATURE \<notin> fst ` set (requestParameters (d_ptr example_request))"
    by (simp add: example_stored)
  have additional: "OAUTH_KEY_SIGNATURE \<notin> fst ` set (additionalParams (d_ptr example_request))"
    by (simp add: example_request_value OAUTH_KEY_SIGNATURE_def QLatin1String_def)
  note inst = signature_appended_once_after_signing [OF stored additional, of example_world]
  from inst have absent: "OAUTH_KEY_SIGNATURE \<notin>
       fst ` set (requestParameters (d_ptr (snd (requestBaseString example_world example_request))))"
    by (rule conjunct1)
  from inst have once: "length (filter (\<lambda>p. fst p = OAUTH_KEY_SIGNATURE)
       (requestParameters
          (d_ptr (snd (snd (KQOAuthRequest_requestParameters example_world example_request))))))
     = 1"
    by blast
  have lst: "last (requestParameters
        (d_ptr (snd (snd (KQOAuthRequest_requestParameters example_world example_request)))))
     = (QLatin1String ''oauth_signature'', QLatin1String ''cs&226'')"
    using example_signed_request_value by (simp add: example_signed_request_def)
  from stored additional absent once lst show ?thesis
    by blast
qed

text \<open>
  Claim C6. The \<open>oauth_signature\<close> parameter is not in the parameter list when the base
  string is computed from it, and it is appended once, last, after signing; the comment
  on \<open>prepareRequest\<close> says the same of the parameters the signature is calculated
  from. The code does not keep to it on a second call of \<open>requestParameters()\<close>: the
  stored list is neither cleared nor filtered, so the pair appended by the first call is
  in the list the second base string is computed from, and the stored list ends up with
  two pairs named \<open>oauth_signature\<close>. The same happens on a first call when the
  additional parameters hold a pair of that name.
\<close>

theorem signature_present_at_second_signing:
  "OAUTH_KEY_SIGNATURE \<in> fst ` set (requestParameters
       (d_ptr (snd (requestBaseString example_world example_signed_request))))
   \<and> length (filter (\<lambda>p. fst p = OAUTH_KEY_SIGNATURE)
       (requestParameters (d_ptr (snd (snd
          (KQOAuthRequest_requestParameters example_world example_signed_request)))))) = 2
   \<and> OAUTH_KEY_SIGNATURE \<in> fst ` set (requestParameters
       (d_ptr (snd (requestBaseString example_world example_signature_named_request))))"
proof -
  have second: "requestParameters
       (d_ptr (snd (requestBaseString example_world example_signed_request)))
     = spec_parametersAtSigning example_world example_signed_request"
    by (simp add: requestBaseString_spec)
  have a: "OAUTH_KEY_SIGNATURE \<in> fst ` set (requestParameters
       (d_ptr (snd (requestBaseString example_world example_signed_request))))"
    unfolding second example_signed_parametersAtSigning
    by (simp add: OAUTH_KEY_SIGNATURE_def)
  have b: "length (filter (\<lambda>p. fst p = OAUTH_KEY_SIGNATURE)
       (requestParameters (d_ptr (snd (snd
          (KQOAuthRequest_requestParameters example_world example_signed_request)))))) = 2"
    unfolding KQOAuthRequest_requestParameters_spec signRequest_spec
      example_signed_parametersAtSigning
    by (simp add: OAUTH_KEY_SIGNATURE_def QLatin1String_def)
  have named: "(OAUTH_KEY_SIGNATURE, QLatin1String ''x'')
      \<in> set (spec_preparedParameters example_world (d_ptr example_signature_named_request))"
    by (simp add: example_signature_named_request_def setAdditionalParameters_def
        spec_preparedParameters_def)
  have "requestType example_signature_named_request = TemporaryCredentials"
    by (simp add: example_signature_named_request_def setAdditionalParameters_def
        example_requestType)
  with named have "(OAUTH_KEY_SIGNATURE, QLatin1String ''x'')
      \<in> set (spec_parametersAtSigning example_world example_signature_named_request)"
    by (simp add: spec_parametersAtSigning_def set_qSort)
  then have c: "OAUTH_KEY_SIGNATURE \<in> fst ` set (requestParameters
       (d_ptr (snd (requestBaseString example_world example_signature_named_request))))"
    by (force simp: requestBaseString_spec)
  from a b c show ?thesis by simp
qed

text \<open>
  Claim C9, as amended. With an endpoint that is not valid, and an empty one is not,
  \<open>initRequest\<close> logs a warning and returns the request as it was: no field is stored.
  With a valid endpoint the type, the endpoint, the timestamp and the nonce are stored
  whatever the request type is; for a type below \<open>TemporaryCredentials\<close> or above
  \<open>AccessToken\<close> a warning is logged as well, for \<open>TemporaryCredentials\<close> and
  \<open>ResourceOwnerAuth\<close> none is. The call returns in every case.
\<close>

theorem initRequest_warning_cases:
  "(\<not> QUrl_isValid requestEndpoint \<longrightarrow>
      initRequest w rtype requestEndpoint q =
        ([''Endpoint URL is not valid. Ignoring. This request might not work.''], q))
   \<and> (QUrl_isEmpty requestEndpoint \<longrightarrow> \<not> QUrl_isValid requestEndpoint)
   \<and> (QUrl_isValid requestEndpoint \<longrightarrow>
        snd (initRequest w rtype requestEndpoint q)
          = spec_initRequest_state w rtype requestEndpoint q
        \<and> (rtype < TemporaryCredentials \<or> AccessToken < rtype \<longrightarrow>
             fst (initRequest w rtype requestEndpoint q)
               = [''Invalid request type. Ignoring. This request might not work.''])
        \<and> (TemporaryCredentials \<le> rtype \<and> rtype < AccessToken \<longrightarrow>
             fst (initRequest w rtype requestEndpoint q) = []))"
  by (simp add: initRequest_def spec_initRequest_state_def QUrl_isValid_def Let_def
      TemporaryCredentials_def AccessToken_def)

text \<open>
  The default-constructed URL is empty and leaves a new request untouched; the example
  endpoint with the request type 7 stores the type 7, the endpoint and the timestamp.
\<close>

theorem initRequest_warning_cases_witness:
  "QUrl_isEmpty QUrl_default \<and> \<not> QUrl_isValid QUrl_default
   \<and> snd (initRequest example_world 7 QUrl_default example_unset_request) = example_unset_request
   \<and> QUrl_isValid example_endpoint
   \<and> fst (initRequest example_world 7 example_endpoint example_unset_request)
     = [''Invalid request type. Ignoring. This request might not work.'']
   \<and> requestType (snd (initRequest example_world 7 example_endpoint example_unset_request)) = 7
   \<and> oauthRequestEndpoint (d_ptr (snd (initRequest example_world 7 example_endpoint
        example_unset_request))) = example_endpoint
   \<and> oauthTimestamp_field (d_ptr (snd (initRequest example_world 7 example_endpoint
        example_unset_request))) = QLatin1String ''1300000000''
   \<and> fst (initRequest example_world ResourceOwnerAuth example_endpoint example_unset_request)
     = []"
proof -
  have empty: "QUrl_isEmpty QUrl_default"
    by (simp add: QUrl_isEmpty_def QUrl_default_def)
  have valid: "QUrl_isValid example_endpoint"
    by (simp add: example_endpoint_def QUrl_isValid_def QUrl_isEmpty_def QLatin1String_def)
  note bad = initRequest_warning_cases [of QUrl_default example_world 7 example_unset_request]
  note good = initRequest_warning_cases [of example_endpoint example_world 7 example_unset_request]
  note fine = initRequest_warning_cases
    [of example_endpoint example_world ResourceOwnerAuth example_unset_request]
  from bad empty have invalid: "\<not> QUrl_isValid QUrl_default"
    by blast
  with bad have unchanged:
    "snd (initRequest example_world 7 QUrl_default example_unset_request) = example_unset_request"
    by simp
  from good valid have state:
    "snd (initRequest example_world 7 example_endpoint example_unset_request)
       = spec_initRequest_state example_world 7 example_endpoint example_unset_request"
    and warned: "fst (initRequest example_world 7 example_endpoint example_unset_request)
       = [''Invalid request type. Ignoring. This request might not work.'']"
    by (simp_all add: TemporaryCredentials_def AccessToken_def)
  from fine valid have quiet:
    "fst (initRequest example_world ResourceOwnerAuth example_endpoint example_unset_request) = []"
    by (simp add: TemporaryCredentials_def AccessToken_def ResourceOwnerAuth_def)
  have fields: "requestType (spec_initRequest_state example_world 7 example_endpoint
        example_unset_request) = 7"
    "oauthRequestEndpoint (d_ptr (spec_initRequest_state example_world 7 example_endpoint
        example_unset_request)) = example_endpoint"
    "oauthTimestamp_field (d_ptr (spec_initRequest_state example_world 7 example_endpoint
        example_unset_request)) = QLatin1String ''1300000000''"
    by (simp_all add: spec_initRequest_state_def example_unset_request_value example_world_def
        oauthTimestamp_def QString_number_def number_digits.simps QLatin1String_def Let_def)
  from empty invalid unchanged valid warned quiet fields show ?thesis
    unfolding state by blast
qed

text \<open>
  Claim C9 as stated fails for an endpoint that is not valid: the call returns before
  it stores anything, so the state differs from the one the call establishes when it
  runs to its end. Here the request type stays \<open>AccessToken\<close> and the timestamp stays
  empty.
\<close>

theorem initRequest_invalid_endpoint_stores_nothing:
  "\<not> QUrl_isValid QUrl_default
   \<and> snd (initRequest example_world TemporaryCredentials QUrl_default
        (snd (KQOAuthRequest_new AccessToken)))
     \<noteq> spec_initRequest_state example_world TemporaryCredentials QUrl_default
         (snd (KQOAuthRequest_new AccessToken))
   \<and> requestType (snd (initRequest example_world TemporaryCredentials QUrl_default
        (snd (KQOAuthRequest_new AccessToken)))) = AccessToken
   \<and> requestType (spec_initRequest_state example_world TemporaryCredentials QUrl_default
        (snd (KQOAuthRequest_new AccessToken))) = TemporaryCredentials
   \<and> oauthTimestamp_field (d_ptr (snd (initRequest example_world TemporaryCredentials
        QUrl_default (snd (KQOAuthRequest_new AccessToken))))) = []
   \<and> oauthTimestamp_field (d_ptr (spec_initRequest_state example_world TemporaryCredentials
        QUrl_default (snd (KQOAuthRequest_new AccessToken)))) = QLatin1String ''1300000000''"
proof -
  have invalid: "\<not> QUrl_isValid QUrl_default"
    by (simp add: QUrl_isValid_def QUrl_isEmpty_def QUrl_default_def)
  then have same: "snd (initRequest example_world TemporaryCredentials QUrl_default
        (snd (KQOAuthRequest_new AccessToken))) = snd (KQOAuthRequest_new AccessToken)"
    by (simp add: initRequest_def)
  have new: "requestType (snd (KQOAuthRequest_new AccessToken)) = AccessToken"
    "oauthTimestamp_field (d_ptr (snd (KQOAuthRequest_new AccessToken))) = []"
    by (simp_all add: KQOAuthRequest_new_def KQOAuthRequestPrivate_new_def setSignatureMethod_def
        setHttpMethod_def Let_def split: prod.splits)
  have est: "requestType (spec_initRequest_state example_world TemporaryCredentials QUrl_default
        (snd (KQOAuthRequest_new AccessToken))) = TemporaryCredentials"
    "oauthTimestamp_field (d_ptr (spec_initRequest_state example_world TemporaryCredentials
        QUrl_default (snd (KQOAuthRequest_new AccessToken)))) = QLatin1String ''1300000000''"
    by (simp_all add: spec_initRequest_state_def new oauthTimestamp_def example_world_def
        QString_number_def number_digits.simps QLatin1String_def Let_def)
  have "TemporaryCredentials \<noteq> AccessToken"
    by (simp add: TemporaryCredentials_def AccessToken_def)
  with new est have "snd (KQOAuthRequest_new AccessToken)
     \<noteq> spec_initRequest_state example_world TemporaryCredentials QUrl_default
         (snd (KQOAuthRequest_new AccessToken))"
    by metis
  with invalid new est show ?thesis
    unfolding same by blast
qed

lemma count_list_distinct: "distinct xs \<Longrightarrow> x \<in> set xs \<Longrightarrow> count_list xs x = 1"
  by (induction xs) auto

lemma QString_less_sorted_distinct: "sorted_wrt QString_less ks \<Longrightarrow> distinct ks"
  by (induction ks) (auto simp: QString_less_irrefl)

lemma QMap_keys_distinct: "QMap_ok m \<Longrightarrow> distinct (QMap_keys m)"
  by (simp add: QMap_ok_sorted QString_less_sorted_distinct)

lemma spec_preparedParameters_keys_mset:
  "image_mset fst (mset (spec_preparedParameters w d))
     = mset spec_protocolKeys + mset (QMap_keys (additionalParams d))"
  using spec_preparedParameters_keys [of w d, THEN arg_cong [where f = mset]]
  by simp

lemma spec_preparedParameters_cached:
  "oauthTimestamp_field d \<noteq> [] \<Longrightarrow> oauthNonce_field d \<noteq> [] \<Longrightarrow>
   spec_preparedParameters w2 d = spec_preparedParameters w1 d"
  by (simp add: spec_preparedParameters_def oauthTimestamp_def oauthNonce_def)

lemma spec_preparedParameters_stored:
  "spec_preparedParameters w (d\<lparr>requestParameters := ps\<rparr>) = spec_preparedParameters w d"
  by (simp add: spec_preparedParameters_def oauthTimestamp_def oauthNonce_def)

lemma signRequest_fields:
  "requestType (signRequest w q) = requestType q"
  "spec_preparedParameters w' (d_ptr (signRequest w q)) = spec_preparedParameters w' (d_ptr q)"
  "oauthHttpMethod (d_ptr (signRequest w q)) = oauthHttpMethod (d_ptr q)"
  "oauthRequestEndpoint (d_ptr (signRequest w q)) = oauthRequestEndpoint (d_ptr q)"
  "requestParameters (d_ptr (signRequest w q))
     = spec_parametersAtSigning w q @ [(OAUTH_KEY_SIGNATURE, spec_signature w q)]"
  by (simp_all add: signRequest_spec spec_preparedParameters_stored OAUTH_KEY_SIGNATURE_def)

lemma second_call_stored:
  assumes "requestType q = TemporaryCredentials"
  shows "requestParameters (d_ptr (signRequest w2 (signRequest w1 q))) =
     qSort normalizedParameterSort
       (qSort normalizedParameterSort
          (requestParameters (d_ptr q) @ spec_preparedParameters w1 (d_ptr q))
        @ [(OAUTH_KEY_SIGNATURE, spec_signature w1 q)]
        @ spec_preparedParameters w2 (d_ptr q))
     @ [(OAUTH_KEY_SIGNATURE, spec_signature w2 (signRequest w1 q))]"
  using assms by (simp add: signRequest_fields spec_parametersAtSigning_def)

lemma second_call_keys:
  assumes "requestType q = TemporaryCredentials"
  shows "mset (map fst (requestParameters (d_ptr (signRequest w2 (signRequest w1 q))))) =
     mset (map fst (requestParameters (d_ptr q)))
     + (mset spec_protocolKeys + mset (QMap_keys (additionalParams (d_ptr q))))
     + (mset spec_protocolKeys + mset (QMap_keys (additionalParams (d_ptr q))))
     + {#OAUTH_KEY_SIGNATURE, OAUTH_KEY_SIGNATURE#}"
proof -
  have "mset (requestParameters (d_ptr (signRequest w2 (signRequest w1 q)))) =
      mset (requestParameters (d_ptr q)) + mset (spec_preparedParameters w1 (d_ptr q))
      + mset (spec_preparedParameters w2 (d_ptr q))
      + {#(OAUTH_KEY_SIGNATURE, spec_signature w1 q),
          (OAUTH_KEY_SIGNATURE, spec_signature w2 (signRequest w1 q))#}"
    by (simp add: second_call_stored [OF assms] mset_qSort)
  from this [THEN arg_cong [where f = "image_mset fst"]] show ?thesis
    by (simp add: spec_preparedParameters_keys_mset)
qed


text \<open>
  Claim C10. A second call of \<open>requestParameters()\<close> on a temporary-credentials request
  runs \<open>prepareRequest\<close> on the list the first call left: the stored list of the first
  call, its signature pair included, with the parameters prepared again. That list,
  sorted, is the one the second base string and signature are computed from, and the
  first signature pair is in it. The list returned holds, besides what was stored before
  the first call, the parameters of both preparations and both signature pairs; the
  two preparations append the same names, and the same pairs once timestamp and nonce
  are stored. On a list that was empty before the first call every protocol name that
  is not also an additional name, and every additional name that is not a protocol
  name or \<open>oauth_signature\<close>, therefore occurs twice.
\<close>

theorem second_call_doubles_parameters:
  assumes "requestType q = TemporaryCredentials"
  shows "(let q1 = snd (snd (KQOAuthRequest_requestParameters w1 q));
              r2 = KQOAuthRequest_requestParameters w2 q1;
              q2 = snd (snd r2);
              P1 = spec_preparedParameters w1 (d_ptr q);
              P2 = spec_preparedParameters w2 (d_ptr q)
          in requestParameters (d_ptr q1)
               = qSort normalizedParameterSort (requestParameters (d_ptr q) @ P1)
                 @ [(OAUTH_KEY_SIGNATURE, fst (oauthSignature w1 q))]
             \<and> requestParameters (d_ptr (snd (prepareRequest w2 q1)))
               = requestParameters (d_ptr q1) @ P2
             \<and> requestParameters (d_ptr (snd (requestBaseString w2 q1)))
               = qSort normalizedParameterSort (requestParameters (d_ptr q1) @ P2)
             \<and> (OAUTH_KEY_SIGNATURE, fst (oauthSignature w1 q))
                 \<in> set (requestParameters (d_ptr (snd (requestBaseString w2 q1))))
             \<and> fst (oauthSignature w2 q1) =
                 hmac_sta1 w2
                   (toUtf8 (oauthHttpMethod (d_ptr q)) @ QByteArray_lit ''&''
                    @ spec_percent_encode
                        (QUrl_toString (oauthRequestEndpoint (d_ptr q)) RemoveQuery)
                    @ QByteArray_lit ''&''
                    @ spec_encodedParameterList
                        (requestParameters (d_ptr (snd (requestBaseString w2 q1)))))
                   (oauthConsumerSecretKey (d_ptr q) @ QLatin1String ''&''
                    @ oauthTokenSecret (d_ptr q))
             \<and> requestParameters (d_ptr q2)
               = requestParameters (d_ptr (snd (requestBaseString w2 q1)))
                 @ [(OAUTH_KEY_SIGNATURE, fst (oauthSignature w2 q1))]
             \<and> fst (snd r2) = map spec_key_value (requestParameters (d_ptr q2))
             \<and> mset (requestParameters (d_ptr q2))
               = mset (requestParameters (d_ptr q)) + mset P1 + mset P2
                 + {#(OAUTH_KEY_SIGNATURE, fst (oauthSignature w1 q)),
                     (OAUTH_KEY_SIGNATURE, fst (oauthSignature w2 q1))#}
             \<and> map fst P2 = map fst P1
             \<and> (oauthTimestamp_field (d_ptr q) \<noteq> [] \<and> oauthNonce_field (d_ptr q) \<noteq> []
                  \<longrightarrow> P2 = P1)
             \<and> (requestParameters (d_ptr q) = [] \<longrightarrow>
                  (\<forall>k\<in>set spec_protocolKeys.
                     k \<notin> fst ` set (additionalParams (d_ptr q)) \<longrightarrow>
                     count_list (map fst (requestParameters (d_ptr q2))) k = 2))
             \<and> (requestParameters (d_ptr q) = [] \<and> QMap_ok (additionalParams (d_ptr q)) \<longrightarrow>
                  (\<forall>k\<in>fst ` set (additionalParams (d_ptr q)).
                     k \<notin> set spec_protocolKeys \<and> k \<noteq> OAUTH_KEY_SIGNATURE \<longrightarrow>
                     count_list (map fst (requestParameters (d_ptr q2))) k = 2)))"
proof -
  define q1 where "q1 = signRequest w1 q"
  define q2 where "q2 = signRequest w2 q1"
  define P1 where "P1 = spec_preparedParameters w1 (d_ptr q)"
  define P2 where "P2 = spec_preparedParameters w2 (d_ptr q)"
  define s1 where "s1 = spec_signature w1 q"
  define L2 where "L2 = qSort normalizedParameterSort (requestParameters (d_ptr q1) @ P2)"
  have tc1: "requestType q1 = TemporaryCredentials"
    using assms by (simp add: q1_def signRequest_fields)
  have stored1: "requestParameters (d_ptr q1)
      = qSort normalizedParameterSort (requestParameters (d_ptr q) @ P1)
        @ [(OAUTH_KEY_SIGNATURE, s1)]"
    using assms by (simp add: q1_def P1_def s1_def signRequest_fields spec_parametersAtSigning_def)
  have at2: "spec_parametersAtSigning w2 q1 = L2"
    using tc1 by (simp add: L2_def P2_def spec_parametersAtSigning_def q1_def signRequest_fields)
  have prep2: "requestParameters (d_ptr (snd (prepareRequest w2 q1)))
      = requestParameters (d_ptr q1) @ P2"
    using tc1 by (simp add: prepareRequest_TemporaryCredentials P2_def q1_def signRequest_fields)
  have inlist: "(OAUTH_KEY_SIGNATURE, s1) \<in> set L2"
    by (simp add: L2_def set_qSort stored1)
  have sig2: "spec_signature w2 q1 =
      hmac_sta1 w2
        (toUtf8 (oauthHttpMethod (d_ptr q)) @ QByteArray_lit ''&''
         @ spec_percent_encode (QUrl_toString (oauthRequestEndpoint (d_ptr q)) RemoveQuery)
         @ QByteArray_lit ''&'' @ spec_encodedParameterList L2)
        (oauthConsumerSecretKey (d_ptr q) @ QLatin1String ''&'' @ oauthTokenSecret (d_ptr q))"
    unfolding spec_signature_def spec_baseString_def at2
    by (simp add: q1_def signRequest_spec)
  have stored2: "requestParameters (d_ptr q2) = L2 @ [(OAUTH_KEY_SIGNATURE, spec_signature w2 q1)]"
    by (simp add: q2_def signRequest_fields at2)
  have msets: "mset (requestParameters (d_ptr q2))
      = mset (requestParameters (d_ptr q)) + mset P1 + mset P2
        + {#(OAUTH_KEY_SIGNATURE, s1), (OAUTH_KEY_SIGNATURE, spec_signature w2 q1)#}"
    by (simp add: stored2 L2_def stored1 mset_qSort)
  have names: "map fst P2 = map fst P1"
    by (simp add: P1_def P2_def spec_preparedParameters_keys)
  have cached: "P2 = P1"
    if "oauthTimestamp_field (d_ptr q) \<noteq> []" "oauthNonce_field (d_ptr q) \<noteq> []"
    unfolding P1_def P2_def using that by (rule spec_preparedParameters_cached)
  have keys: "mset (map fst (requestParameters (d_ptr q2))) =
      mset (map fst (requestParameters (d_ptr q)))
      + (mset spec_protocolKeys + mset (QMap_keys (additionalParams (d_ptr q))))
      + (mset spec_protocolKeys + mset (QMap_keys (additionalParams (d_ptr q))))
      + {#OAUTH_KEY_SIGNATURE, OAUTH_KEY_SIGNATURE#}"
    unfolding q2_def q1_def using assms by (rule second_call_keys)
  have count: "count_list (map fst (requestParameters (d_ptr q2))) k =
      2 * count_list spec_protocolKeys k
      + 2 * count_list (QMap_keys (additionalParams (d_ptr q))) k"
    if "requestParameters (d_ptr q) = []" "k \<noteq> OAUTH_KEY_SIGNATURE" for k
    using keys [THEN arg_cong [where f = "\<lambda>M. count M k"]] that
    by (simp flip: count_mset)
  have protocol: "count_list (map fst (requestParameters (d_ptr q2))) k = 2"
    if "requestParameters (d_ptr q) = []" "k \<in> set spec_protocolKeys"
      "k \<notin> fst ` set (additionalParams (d_ptr q))" for k
  proof -
    from that(2) have "k \<noteq> OAUTH_KEY_SIGNATURE"
      using spec_protocolKeys_no_signature by blast
    moreover have "count_list spec_protocolKeys k = 1"
      using that(2) spec_protocolKeys_distinct by (rule count_list_distinct [rotated])
    moreover have "count_list (QMap_keys (additionalParams (d_ptr q))) k = 0"
      using that(3) by (simp add: QMap_keys_def)
    ultimately show ?thesis
      using count [OF that(1)] by simp
  qed
  have additional: "count_list (map fst (requestParameters (d_ptr q2))) k = 2"
    if "requestParameters (d_ptr q) = []" "QMap_ok (additionalParams (d_ptr q))"
      "k \<in> fst ` set (additionalParams (d_ptr q))" "k \<notin> set spec_protocolKeys"
      "k \<noteq> OAUTH_KEY_SIGNATURE" for k
  proof -
    have "count_list (QMap_keys (additionalParams (d_ptr q))) k = 1"
      using that(2,3) QMap_keys_distinct [of "additionalParams (d_ptr q)"]
      by (simp add: count_list_distinct QMap_keys_def)
    moreover have "count_list spec_protocolKeys k = 0"
      using that(4) by simp
    ultimately show ?thesis
      using count [OF that(1) that(5)] by simp
  qed
  have call1: "snd (snd (KQOAuthRequest_requestParameters w1 q)) = q1"
    by (simp add: KQOAuthRequest_requestParameters_spec q1_def)
  have call2: "snd (snd (KQOAuthRequest_requestParameters w2 q1)) = q2"
    "fst (snd (KQOAuthRequest_requestParameters w2 q1))
       = map spec_key_value (requestParameters (d_ptr q2))"
    by (simp_all add: KQOAuthRequest_requestParameters_spec q2_def signRequest_spec)
  have sigs: "fst (oauthSignature w1 q) = s1" "fst (oauthSignature w2 q1) = spec_signature w2 q1"
    by (simp_all add: oauthSignature_spec s1_def)
  have at2': "requestParameters (d_ptr (snd (requestBaseString w2 q1))) = L2"
    by (simp add: requestBaseString_spec at2)
  show ?thesis
    unfolding Let_def call1 call2 sigs at2' P1_def [symmetric] P2_def [symmetric]
    using stored1 prep2 inlist sig2 stored2 msets names cached protocol additional
    unfolding L2_def by blast
qed


text \<open>
  Two calls on the example request, with the same clock: every pair of the first list
  is there twice, the first signature is sorted in among them, and the second signature
  is last.
\<close>

theorem second_call_doubles_parameters_witness:
  "requestType example_request = TemporaryCredentials
   \<and> requestParameters (d_ptr example_request) = []
   \<and> fst (snd (KQOAuthRequest_requestParameters example_world example_signed_request))
     = map QByteArray_lit
         [''a=1'', ''a=1'', ''b=2 3'', ''b=2 3'',
          ''oauth_callback=http%3A%2F%2Fc%2Fd'', ''oauth_callback=http%3A%2F%2Fc%2Fd'',
          ''oauth_consumer_key=ck'', ''oauth_consumer_key=ck'',
          ''oauth_nonce=3133'', ''oauth_nonce=3133'',
          ''oauth_signature=cs&226'',
          ''oauth_signature_method=HMAC_SHA1'', ''oauth_signature_method=HMAC_SHA1'',
          ''oauth_timestamp=1300000000'', ''oauth_timestamp=1300000000'',
          ''oauth_version=1.0'', ''oauth_version=1.0'',
          ''oauth_signature=cs&458'']
   \<and> (OAUTH_KEY_SIGNATURE, fst (oauthSignature example_world example_request))
       \<in> set (requestParameters
             (d_ptr (snd (requestBaseString example_world example_signed_request))))
   \<and> fst (oauthSignature example_world example_request) = QLatin1String ''cs&226''
   \<and> count_list (map fst (requestParameters (d_ptr (snd (snd
         (KQOAuthRequest_requestParameters example_world example_signed_request))))))
       (QLatin1String ''oauth_callback'') = 2
   \<and> count_list (map fst (requestParameters (d_ptr (snd (snd
         (KQOAuthRequest_requestParameters example_world example_signed_request))))))
       (QLatin1String ''a'') = 2"
proof -
  have tc: "requestType example_request = TemporaryCredentials"
    by (rule example_requestType)
  have stored: "requestParameters (d_ptr example_request) = []"
    by (rule example_stored)
  have ok: "QMap_ok (additionalParams (d_ptr example_request))"
    by (simp add: example_request_value QLatin1String_def)
  note inst = second_call_doubles_parameters [OF tc, of example_world example_world,
      unfolded Let_def, folded example_signed_request_def]
  have callback: "QLatin1String ''oauth_callback'' \<in> set spec_protocolKeys"
    "QLatin1String ''oauth_callback'' \<notin> fst ` set (additionalParams (d_ptr example_request))"
    by (simp_all add: spec_protocolKeys_def example_request_value QLatin1String_def)
  have a: "QLatin1String ''a'' \<in> fst ` set (additionalParams (d_ptr example_request))"
    "QLatin1String ''a'' \<notin> set spec_protocolKeys"
    "QLatin1String ''a'' \<noteq> OAUTH_KEY_SIGNATURE"
    by (simp_all add: spec_protocolKeys_def example_request_value OAUTH_KEY_SIGNATURE_def
        QLatin1String_def)
  from inst have present: "(OAUTH_KEY_SIGNATURE, fst (oauthSignature example_world example_request))
       \<in> set (requestParameters
             (d_ptr (snd (requestBaseString example_world example_signed_request))))"
    by blast
  from inst stored callback have twice: "count_list (map fst (requestParameters (d_ptr (snd (snd
         (KQOAuthRequest_requestParameters example_world example_signed_request))))))
       (QLatin1String ''oauth_callback'') = 2"
    by blast
  from inst stored ok a have twice': "count_list (map fst (requestParameters (d_ptr (snd (snd
         (KQOAuthRequest_requestParameters example_world example_signed_request))))))
       (QLatin1String ''a'') = 2"
    by blast
  have first: "fst (oauthSignature example_world example_request) = QLatin1String ''cs&226''"
    by (simp add: oauthSignature_spec example_signature)
  have returned: "fst (snd (KQOAuthRequest_requestParameters example_world example_signed_request))
     = map QByteArray_lit
         [''a=1'', ''a=1'', ''b=2 3'', ''b=2 3'',
          ''oauth_callback=http%3A%2F%2Fc%2Fd'', ''oauth_callback=http%3A%2F%2Fc%2Fd'',
          ''oauth_consumer_key=ck'', ''oauth_consumer_key=ck'',
          ''oauth_nonce=3133'', ''oauth_nonce=3133'',
          ''oauth_signature=cs&226'',
          ''oauth_signature_method=HMAC_SHA1'', ''oauth_signature_method=HMAC_SHA1'',
          ''oauth_timestamp=1300000000'', ''oauth_timestamp=1300000000'',
          ''oauth_version=1.0'', ''oauth_version=1.0'',
          ''oauth_signature=cs&458'']"
    unfolding KQOAuthRequest_requestParameters_spec example_signed_parametersAtSigning
      example_signed_signature
    by (simp add: spec_key_value_def QLatin1String_def QByteArray_lit_def)
  from tc stored returned present first twice twice' show ?thesis
    by blast
qed

end
